theory Spec2Isabelle
  imports Main "HOL-Library.Word"
begin

section \<open>The container values handed over by the access layer\<close>

text \<open>
  \<^verbatim>\<open>region_io.cpp\<close> reads values of the container library's type \<^verbatim>\<open>matvar_t\<close>.
  The element type tag is the library's enumeration \<^verbatim>\<open>matio_types\<close>.
\<close>

datatype matio_types =
    MAT_T_UNKNOWN | MAT_T_INT8 | MAT_T_UINT8 | MAT_T_INT16 | MAT_T_UINT16
  | MAT_T_INT32 | MAT_T_UINT32 | MAT_T_SINGLE | MAT_T_DOUBLE
  | MAT_T_INT64 | MAT_T_UINT64 | MAT_T_MATRIX | MAT_T_COMPRESSED
  | MAT_T_UTF8 | MAT_T_UTF16 | MAT_T_UTF32 | MAT_T_STRING
  | MAT_T_CELL | MAT_T_STRUCT | MAT_T_ARRAY | MAT_T_FUNCTION

text \<open>
  A \<^verbatim>\<open>matvar_t\<close> carries the dimension vector (its length is the field \<^verbatim>\<open>rank\<close>),
  the tag \<^verbatim>\<open>data_type\<close>, the flag \<^verbatim>\<open>isComplex\<close>, the byte count \<^verbatim>\<open>nbytes\<close>, the size
  of one element \<^verbatim>\<open>data_size\<close> and the untyped buffer \<^verbatim>\<open>data\<close>.  The buffer is kept
  here with the shape the library gave it: a run of 32- or 64-bit integers, of single
  or double precision floats (as their bit patterns), the named fields of a record, the
  cells of a cell array, or bytes of any other kind.  The code casts \<^verbatim>\<open>data\<close> by the tag
  alone; the tag and the buffer are two separate components here as well, and a cast that
  does not fit the buffer is an outcome of its own (\<open>BadCast\<close> below).
\<close>

datatype matvar =
  Matvar (dims: "nat list") (data_type: matio_types) (isComplex: bool)
         (nbytes: nat) (data_size: nat) (data: mat_data)
and mat_data =
    Int32Data "32 word list"
  | Int64Data "64 word list"
  | SingleData "32 word list"
  | DoubleData "64 word list"
  | StructData "(string \<times> matvar) list"
  | CellData "matvar list"
  | OtherData "8 word list"

definition rank :: "matvar \<Rightarrow> nat" where
  "rank v = length (dims v)"

section \<open>Outcomes\<close>

text \<open>
  Every \<^verbatim>\<open>throw std::exception(msg)\<close> of the source is \<open>Exception msg\<close>.  The other
  constructors are the places where the C++ has no defined behaviour and raises nothing:
  a read or a write outside a buffer, a division by zero, a null pointer that is
  dereferenced, and a cast of \<^verbatim>\<open>data\<close> that does not fit the buffer.
\<close>

datatype error =
    Exception string
  | OutOfBoundsRead
  | OutOfBoundsWrite
  | DivisionByZero
  | NullDereference
  | BadCast

section \<open>Results of the loaders\<close>

text \<open>
  Modelled from the spec: the declarations of \<^verbatim>\<open>CompoundRegion\<close>,
  \<^verbatim>\<open>HierarchicalRegion\<close> and \<^verbatim>\<open>image_size\<close> are missing (the headers
  \<^verbatim>\<open>region_map.h\<close> and \<^verbatim>\<open>region_io.h\<close> are not among the sources).  A region is an ordered
  sequence of identifiers of one wide integer type (64 bits here; the conversion from
  \<^verbatim>\<open>int32_t\<close> that \<^verbatim>\<open>std::copy\<close> performs is then the sign extension); a hierarchical
  region is a region with a single precision \<open>scale\<close> and an ordered sequence of
  children; an image size is three integers \<open>rows\<close>, \<open>cols\<close>, \<open>stride\<close>, taken as
  \<^verbatim>\<open>size_t\<close> like the length \<^verbatim>\<open>size.rows*size.cols\<close> computed from them.
\<close>

datatype CompoundRegion =
  CompoundRegion (atomic_superpixels: "64 word list")

datatype HierarchicalRegion =
  HierarchicalRegion (region: CompoundRegion) (scale: "32 word")
                     (children_node: "HierarchicalRegion list")

record image_size =
  rows :: "64 word"
  cols :: "64 word"
  stride :: "64 word"

section \<open>The functions of \<^verbatim>\<open>region_io.cpp\<close>\<close>

subsection \<open>\<^verbatim>\<open>get_total_element_count\<close>\<close>

text \<open>The product of the dimensions, in \<^verbatim>\<open>size_t\<close> arithmetic.\<close>

definition get_total_element_count :: "matvar \<Rightarrow> nat" where
  "get_total_element_count arry =
     unat (foldl (\<lambda>number_of_element d. number_of_element * of_nat d) (1 :: 64 word)
             (dims arry))"

subsection \<open>The two calls into the container library\<close>

text \<open>
  \<^verbatim>\<open>Mat_VarGetStructField(s, name, MAT_BY_NAME, 0)\<close>: the field of that name of the first
  record of \<open>s\<close>, or a null pointer (\<open>None\<close>) when \<open>s\<close> holds no such field.
\<close>

definition Mat_VarGetStructField :: "matvar \<Rightarrow> string \<Rightarrow> matvar option" where
  "Mat_VarGetStructField struct_array name =
     (case data struct_array of StructData fs \<Rightarrow> map_of fs name | _ \<Rightarrow> None)"

text \<open>
  \<^verbatim>\<open>Mat_VarGetCellsLinear(c, 0, 1, edge)\<close>, with \<open>edge\<close> an \<^verbatim>\<open>int\<close>: a freshly allocated
  array of the first \<open>edge\<close> cells of \<open>c\<close>.  For a negative \<open>edge\<close> the allocation of
  \<open>edge\<close> pointers fails and no cell is read: the call returns a null pointer (\<open>None\<close>).
  Reading more cells than the buffer holds is out of bounds.
\<close>

definition Mat_VarGetCellsLinear :: "matvar \<Rightarrow> int \<Rightarrow> error + matvar list option" where
  "Mat_VarGetCellsLinear cell_array edge =
     (if edge < 0 then Inr None
      else
        case data cell_array of
          CellData cells \<Rightarrow>
            if nat edge \<le> length cells then Inr (Some (take (nat edge) cells))
            else Inl OutOfBoundsRead
        | _ \<Rightarrow> Inl BadCast)"

text \<open>
  The cast \<^verbatim>\<open>(int)number_of_cells\<close> of a \<^verbatim>\<open>size_t\<close>: the low 32 bits, read as a signed
  number.
\<close>

definition int_cast :: "nat \<Rightarrow> int" where
  "int_cast n = sint (word_of_nat n :: 32 word)"

subsection \<open>\<^verbatim>\<open>get_struct_field\<close>\<close>

definition get_struct_field :: "matvar \<Rightarrow> string \<Rightarrow> bool \<Rightarrow> error + matvar option" where
  "get_struct_field struct_array name optional =
     (let out = Mat_VarGetStructField struct_array name in
      if out = None \<or> nbytes (the out) \<le> 0 then
        (if optional then Inr None
         else Inl (Exception (''Struct is missing expected element: '' @ name)))
      else Inr out)"

subsection \<open>\<^verbatim>\<open>load_region\<close>\<close>

text \<open>
  \<^verbatim>\<open>std::copy\<close> of \<open>n\<close> elements read through the cast pointer into the resized
  vector; each element is converted to the vector's element type.
\<close>

definition copy_elements :: "nat \<Rightarrow> 'a::len word list \<Rightarrow> error + 64 word list" where
  "copy_elements n atomic_list =
     (if n \<le> length atomic_list then Inr (map scast (take n atomic_list))
      else Inl OutOfBoundsRead)"

definition load_region :: "matvar \<Rightarrow> error + CompoundRegion" where
  "load_region struct_array =
     (if data_type struct_array \<noteq> MAT_T_STRUCT then
        Inl (Exception ''cells should have struct array'')
      else
        case get_struct_field struct_array ''list_of_atomic_superpixels'' False of
          Inl e \<Rightarrow> Inl e
        | Inr None \<Rightarrow> Inl NullDereference
        | Inr (Some list_of_atomic_superpixels) \<Rightarrow>
            if data_size list_of_atomic_superpixels = 0 then Inl DivisionByZero
            else
              let number_of_atomic_superpixels =
                    nbytes list_of_atomic_superpixels div data_size list_of_atomic_superpixels
              in
              if data_type list_of_atomic_superpixels = MAT_T_INT32 then
                (case data list_of_atomic_superpixels of
                   Int32Data atomic_list \<Rightarrow>
                     map_sum id CompoundRegion
                       (copy_elements number_of_atomic_superpixels atomic_list)
                 | _ \<Rightarrow> Inl BadCast)
              else if data_type list_of_atomic_superpixels = MAT_T_INT64 then
                (case data list_of_atomic_superpixels of
                   Int64Data atomic_list \<Rightarrow>
                     map_sum id CompoundRegion
                       (copy_elements number_of_atomic_superpixels atomic_list)
                 | _ \<Rightarrow> Inl BadCast)
              else Inl (Exception ''list_of_atomic_superpixels has unknown type''))"

subsection \<open>\<^verbatim>\<open>load_image_size\<close>\<close>

definition load_image_size :: "matvar option \<Rightarrow> error + image_size" where
  "load_image_size image_shape =
     (case image_shape of
        None \<Rightarrow> Inl (Exception ''File dose not include image_shape.'')
      | Some v \<Rightarrow>
          if rank v \<noteq> 2 \<or> isComplex v \<or> dims v ! 0 \<noteq> 1 \<or> dims v ! 1 \<noteq> 3 then
            Inl (Exception ''image_shape is invalid.  '')
          else if data_type v = MAT_T_INT64 then
            (case data v of
               Int64Data image_shape_data \<Rightarrow>
                 if 3 \<le> length image_shape_data then
                   Inr \<lparr>rows = image_shape_data ! 0, cols = image_shape_data ! 1,
                        stride = image_shape_data ! 2\<rparr>
                 else Inl OutOfBoundsRead
             | _ \<Rightarrow> Inl BadCast)
          else if data_type v = MAT_T_INT32 then
            (case data v of
               Int32Data image_shape_data \<Rightarrow>
                 if 3 \<le> length image_shape_data then
                   Inr \<lparr>rows = scast (image_shape_data ! 0),
                        cols = scast (image_shape_data ! 1),
                        stride = scast (image_shape_data ! 2)\<rparr>
                 else Inl OutOfBoundsRead
             | _ \<Rightarrow> Inl BadCast)
          else Inl (Exception ''image_shape has unknown type.''))"

subsection \<open>\<^verbatim>\<open>load_rle_data\<close> and \<^verbatim>\<open>load_atomic_regions_from_rle\<close>\<close>

text \<open>
  \<^verbatim>\<open>std::fill_n(itter, n, value)\<close> assigns \<open>value\<close> through the iterator \<open>n\<close> times
  (not at all when \<open>n\<close> is not positive) and returns the advanced iterator.  The
  iterator is a position in the buffer; an assignment at or after the end of the buffer
  is a write out of bounds.
\<close>

fun fill_n :: "64 word list \<Rightarrow> nat \<Rightarrow> nat \<Rightarrow> 64 word \<Rightarrow> error + (64 word list \<times> nat)" where
  "fill_n buf itter 0 v = Inr (buf, itter)"
| "fill_n buf itter (Suc n) v =
     (if itter < length buf then fill_n (buf[itter := v]) (Suc itter) n v
      else Inl OutOfBoundsWrite)"

function rle_loop ::
  "'a::len word list \<Rightarrow> nat \<Rightarrow> nat \<Rightarrow> 64 word list \<Rightarrow> nat \<Rightarrow> error + 64 word list" where
  "rle_loop data_array number_of_ellements elid slic_indexes itter =
     (if elid < number_of_ellements then
        (if number_of_ellements + elid < length data_array then
           (let run_lenght = data_array ! elid;
                val = data_array ! (number_of_ellements + elid)
            in case fill_n slic_indexes itter (nat (sint run_lenght)) (scast val) of
                 Inl e \<Rightarrow> Inl e
               | Inr (slic_indexes', itter') \<Rightarrow>
                   rle_loop data_array number_of_ellements (Suc elid) slic_indexes' itter')
         else Inl OutOfBoundsRead)
      else Inr slic_indexes)"
  by pat_completeness auto
termination
  by (relation "measure (\<lambda>(d, n, elid, b, i). n - elid)") auto

definition load_rle_data ::
  "'a::len word list \<Rightarrow> nat \<Rightarrow> image_size \<Rightarrow> error + 64 word list" where
  "load_rle_data data_array number_of_ellements sz =
     rle_loop data_array number_of_ellements 0
       (replicate (unat (rows sz * cols sz)) 0) 0"

definition load_atomic_regions_from_rle ::
  "matvar option \<Rightarrow> image_size \<Rightarrow> error + 64 word list" where
  "load_atomic_regions_from_rle atomic_region_rle sz =
     (case atomic_region_rle of
        None \<Rightarrow> Inl (Exception ''File does not include atomic_SLIC_rle'')
      | Some v \<Rightarrow>
          if rank v \<noteq> 2 \<or> isComplex v \<or> dims v ! 1 \<noteq> 2 then
            Inl (Exception ''atomic_SLIC_rle is invalid.'')
          else if data_type v = MAT_T_INT64 then
            (case data v of
               Int64Data d \<Rightarrow> load_rle_data d (dims v ! 0) sz
             | _ \<Rightarrow> Inl BadCast)
          else if data_type v = MAT_T_INT32 then
            (case data v of
               Int32Data d \<Rightarrow> load_rle_data d (dims v ! 0) sz
             | _ \<Rightarrow> Inl BadCast)
          else Inl (Exception ''atomic_SLIC_rle has unknown type.''))"

subsection \<open>\<^verbatim>\<open>load_region_node_from_cell_array\<close>\<close>

text \<open>
  The scale is read through \<^verbatim>\<open>(float*)scale->data\<close> or \<^verbatim>\<open>(double*)scale->data\<close>: the first
  element of the buffer.
\<close>

definition first_element :: "'a list \<Rightarrow> error + 'a" where
  "first_element xs = (case xs of [] \<Rightarrow> Inl OutOfBoundsRead | x # _ \<Rightarrow> Inr x)"

text \<open>
  \<open>double_to_float\<close> is the conversion \<^verbatim>\<open>(float)\<close> of a double, on bit patterns; it is a
  parameter of the loader.
\<close>

definition load_scale :: "(64 word \<Rightarrow> 32 word) \<Rightarrow> matvar \<Rightarrow> error + 32 word" where
  "load_scale double_to_float scale_var =
     (if data_type scale_var = MAT_T_SINGLE then
        (case data scale_var of SingleData xs \<Rightarrow> first_element xs | _ \<Rightarrow> Inl BadCast)
      else if data_type scale_var = MAT_T_DOUBLE then
        (case data scale_var of
           DoubleData xs \<Rightarrow> map_sum id double_to_float (first_element xs)
         | _ \<Rightarrow> Inl BadCast)
      else Inl (Exception ''Scale has unknown type''))"

text \<open>
  What the two library calls hand out is a part of the value they are called on, which is
  why the recursion of the loader ends.
\<close>

lemma map_of_size_less:
  "map_of fs name = Some v \<Longrightarrow> size v < size_list (size_prod (\<lambda>_. 0) size) fs"
  by (induction fs) (auto split: if_splits)

lemma Mat_VarGetStructField_size:
  "Mat_VarGetStructField c name = Some v \<Longrightarrow> size v < size c"
  by (cases c)
    (auto simp: Mat_VarGetStructField_def split: mat_data.splits dest!: map_of_size_less)

lemma get_struct_field_size:
  "get_struct_field c name optional = Inr (Some v) \<Longrightarrow> size v < size c"
  by (auto simp: get_struct_field_def Let_def split: if_splits
      dest: Mat_VarGetStructField_size)

lemma Mat_VarGetCellsLinear_size:
  assumes "Mat_VarGetCellsLinear c n = Inr (Some cs)"
  shows "size_list size cs < size c"
proof -
  have tk: "size_list size (take k xs) \<le> size_list size xs" for k and xs :: "matvar list"
    by (induction xs arbitrary: k) (auto simp: take_Cons split: nat.splits)
  from assms show ?thesis using tk [of "nat n"]
    by (cases c)
      (auto simp: Mat_VarGetCellsLinear_def less_Suc_eq_le le_SucI
        split: mat_data.splits if_splits)
qed

text \<open>
  The loader allocates the array \<^verbatim>\<open>all_cells\<close> and frees it on both ways out of the loop.
  The number of such arrays that are allocated and not yet freed is threaded through the
  loader as \<open>live\<close>.  \<^verbatim>\<open>catch (...)\<close> catches the exceptions only: after any other outcome
  nothing more runs.

  \<open>load_cells\<close> is the \<^verbatim>\<open>for\<close> loop, over the cells that are left, and \<open>load_cell\<close> is its
  body.  The loop runs up to \<^verbatim>\<open>number_of_cells\<close>, and \<^verbatim>\<open>all_cells\<close> holds
  \<^verbatim>\<open>(int)number_of_cells\<close> cells: where the cast has made the count smaller, the loop reads
  past the end of \<^verbatim>\<open>all_cells\<close> once the cells it holds are loaded.
\<close>

function
  load_region_node_from_cell_array ::
    "(64 word \<Rightarrow> 32 word) \<Rightarrow> matvar \<Rightarrow> nat \<Rightarrow> (error + HierarchicalRegion list) \<times> nat"
and load_cells ::
    "(64 word \<Rightarrow> 32 word) \<Rightarrow> matvar list \<Rightarrow> nat \<Rightarrow> (error + HierarchicalRegion list) \<times> nat"
and load_cell ::
    "(64 word \<Rightarrow> 32 word) \<Rightarrow> matvar \<Rightarrow> nat \<Rightarrow> (error + HierarchicalRegion) \<times> nat"
where
  "load_region_node_from_cell_array double_to_float cell_array live =
     (if data_type cell_array \<noteq> MAT_T_CELL \<or> nbytes cell_array < 1 then
        (Inl (Exception ''Invalid tree data structure''), live)
      else
        let number_of_cells = get_total_element_count cell_array in
        case Mat_VarGetCellsLinear cell_array (int_cast number_of_cells) of
          Inl e \<Rightarrow> (Inl e, live)
        | Inr None \<Rightarrow> (Inl (Exception ''Invalid tree data structure''), live)
        | Inr (Some all_cells) \<Rightarrow>
            (case load_cells double_to_float all_cells (Suc live) of
               (Inl (Exception msg), live') \<Rightarrow> (Inl (Exception msg), live' - 1)
             | (Inl e, live') \<Rightarrow> (Inl e, live')
             | (Inr output, live') \<Rightarrow>
                 if length all_cells < number_of_cells then (Inl OutOfBoundsRead, live')
                 else (Inr output, live' - 1)))"
| "load_cells double_to_float [] live = (Inr [], live)"
| "load_cells double_to_float (c # cs) live =
     (case load_cell double_to_float c live of
        (Inl e, live') \<Rightarrow> (Inl e, live')
      | (Inr node, live') \<Rightarrow>
          (case load_cells double_to_float cs live' of
             (Inl e, live'') \<Rightarrow> (Inl e, live'')
           | (Inr nodes, live'') \<Rightarrow> (Inr (node # nodes), live'')))"
| "load_cell double_to_float c live =
     (case load_region c of
        Inl e \<Rightarrow> (Inl e, live)
      | Inr base \<Rightarrow>
          (case get_struct_field c ''scale'' False of
             Inl e \<Rightarrow> (Inl e, live)
           | Inr None \<Rightarrow> (Inl NullDereference, live)
           | Inr (Some scale_var) \<Rightarrow>
               (case load_scale double_to_float scale_var of
                  Inl e \<Rightarrow> (Inl e, live)
                | Inr s \<Rightarrow>
                    (case get_struct_field c ''children'' True of
                       Inl e \<Rightarrow> (Inl e, live)
                     | Inr None \<Rightarrow> (Inr (HierarchicalRegion base s []), live)
                     | Inr (Some children) \<Rightarrow>
                         (case load_region_node_from_cell_array double_to_float children live of
                            (Inl e, live') \<Rightarrow> (Inl e, live')
                          | (Inr nodes, live') \<Rightarrow>
                              (Inr (HierarchicalRegion base s nodes), live'))))))"
  by pat_completeness auto
termination
  by (relation "measure (\<lambda>x. case x of
          Inl (f, v, live) \<Rightarrow> size v
        | Inr (Inl (f, cs, live)) \<Rightarrow> size_list size cs
        | Inr (Inr (f, c, live)) \<Rightarrow> size c)")
    (auto dest: Mat_VarGetCellsLinear_size get_struct_field_size)

text \<open>
  \<^verbatim>\<open>load_region_node_from_cell_array\<close> is the entry point that the specification calls
  \<open>loadRegionTree\<close>.
\<close>

section \<open>The decoded label array, in the words of the specification\<close>

text \<open>
  The specification describes the decoded sequence as the concatenation, for each pair
  \<open>(run_length, value)\<close> in source order, of \<open>run_length\<close> repetitions of \<open>value\<close>.
  \<open>rle_expand\<close> is that description; it is compared with the loop of the source below.

  The pairs of a table stored column by column are its run-lengths zipped with its values.
  A run-length is a signed integer of the source's width: the number of repetitions it stands
  for is its value, and none when it is not positive (\<^verbatim>\<open>std::fill_n\<close> then assigns
  nothing).  A value is converted to \<^verbatim>\<open>size_t\<close> as the assignment into the buffer does.
  \<open>rle_total\<close> is the sum of the run-lengths, counted that way.
\<close>

definition rle_expand :: "(nat \<times> 64 word) list \<Rightarrow> 64 word list" where
  "rle_expand pairs = concat (map (\<lambda>(run_length, v). replicate run_length v) pairs)"

definition rle_pairs :: "'a::len word list \<Rightarrow> 'a word list \<Rightarrow> (nat \<times> 64 word) list" where
  "rle_pairs runs vals = zip (map (\<lambda>r. nat (sint r)) runs) (map scast vals)"

definition rle_total :: "'a::len word list \<Rightarrow> nat" where
  "rle_total runs = sum_list (map (\<lambda>r. nat (sint r)) runs)"

section \<open>Well-formed sibling sequences\<close>

text \<open>
  The inputs that the specification calls well formed: a cell array of at least one
  element (and of no more elements than an \<^verbatim>\<open>int\<close> counts) whose number of cells is the
  product of its dimensions, each element a record with a valid membership list, a single
  or double precision scale and, if it has a field \<^verbatim>\<open>children\<close>, either an empty one or a
  well-formed sibling sequence again.  \<open>child_count\<close> is the length of the child
  sequence of an element: the number of elements of its field \<^verbatim>\<open>children\<close>, and 0 when
  it has no such field.
\<close>

definition valid_membership :: "matvar \<Rightarrow> bool" where
  "valid_membership c =
     (data_type c = MAT_T_STRUCT \<and>
      (case Mat_VarGetStructField c ''list_of_atomic_superpixels'' of
         None \<Rightarrow> False
       | Some l \<Rightarrow>
           0 < nbytes l \<and> 0 < data_size l \<and>
           (case data l of
              Int32Data xs \<Rightarrow> data_type l = MAT_T_INT32 \<and> length xs = nbytes l div data_size l
            | Int64Data xs \<Rightarrow> data_type l = MAT_T_INT64 \<and> length xs = nbytes l div data_size l
            | _ \<Rightarrow> False)))"

definition valid_scale :: "matvar \<Rightarrow> bool" where
  "valid_scale c =
     (case Mat_VarGetStructField c ''scale'' of
        None \<Rightarrow> False
      | Some s \<Rightarrow>
          0 < nbytes s \<and>
          (case data s of
             SingleData xs \<Rightarrow> data_type s = MAT_T_SINGLE \<and> xs \<noteq> []
           | DoubleData xs \<Rightarrow> data_type s = MAT_T_DOUBLE \<and> xs \<noteq> []
           | _ \<Rightarrow> False))"

definition child_count :: "matvar \<Rightarrow> nat" where
  "child_count c =
     (case Mat_VarGetStructField c ''children'' of
        None \<Rightarrow> 0
      | Some children \<Rightarrow> get_total_element_count children)"

function well_formed_siblings :: "matvar \<Rightarrow> bool"
  and well_formed_element :: "matvar \<Rightarrow> bool" where
  "well_formed_siblings t =
     (data_type t = MAT_T_CELL \<and> 1 \<le> nbytes t \<and>
      (case data t of
         CellData cells \<Rightarrow>
           1 \<le> length cells \<and> length cells \<le> 2147483647 \<and>
           get_total_element_count t = length cells \<and>
           (\<forall>c \<in> set cells. well_formed_element c)
       | _ \<Rightarrow> False))"
| "well_formed_element c =
     (valid_membership c \<and> valid_scale c \<and>
      (case Mat_VarGetStructField c ''children'' of
         None \<Rightarrow> True
       | Some children \<Rightarrow>
           if nbytes children = 0 then get_total_element_count children = 0
           else well_formed_siblings children))"
  by pat_completeness auto
termination
proof (relation "measure (\<lambda>x. case x of Inl t \<Rightarrow> size t | Inr c \<Rightarrow> size c)", goal_cases)
  case 1
  then show ?case by simp
next
  case (2 t cells c)
  then have "size c < Suc (size_list size cells)"
    using size_list_estimation' [of c cells "size c" size] by simp
  with 2 show ?case by (cases t) simp
next
  case (3 c children)
  then show ?case by (simp add: Mat_VarGetStructField_size)
qed

text \<open>
  An outcome after which the program is still running: a return, or an exception, which
  \<^verbatim>\<open>catch (...)\<close> catches and the caller receives.
\<close>

definition thrown :: "error \<Rightarrow> bool" where
  "thrown e = (case e of Exception msg \<Rightarrow> True | _ \<Rightarrow> False)"

definition returns_or_throws :: "error + 'a \<Rightarrow> bool" where
  "returns_or_throws r = (case r of Inl e \<Rightarrow> thrown e | Inr _ \<Rightarrow> True)"

text \<open>
  What it means that a node of the result comes from an element of the input: its
  membership list and its scale are the ones loaded from the element, and it has as many
  children as the element.
\<close>

definition loaded_from ::
  "(64 word \<Rightarrow> 32 word) \<Rightarrow> matvar \<Rightarrow> HierarchicalRegion \<Rightarrow> bool" where
  "loaded_from f c node =
     (load_region c = Inr (region node)
      \<and> (\<exists>sv. get_struct_field c ''scale'' False = Inr (Some sv)
             \<and> load_scale f sv = Inr (scale node))
      \<and> length (children_node node) = child_count c)"

text \<open>
  A record without one of its fields: what a file holds when the field was never written.
\<close>

definition without_field :: "string \<Rightarrow> matvar \<Rightarrow> matvar" where
  "without_field name c =
     (case data c of
        StructData fs \<Rightarrow>
          Matvar (dims c) (data_type c) (isComplex c) (nbytes c) (data_size c)
            (StructData (filter (\<lambda>p. fst p \<noteq> name) fs))
      | _ \<Rightarrow> c)"

section \<open>Properties\<close>

text \<open>
  The equations of the recursive loaders are unfolded by hand, one call at a time.
\<close>

declare load_region_node_from_cell_array.simps [simp del]
declare load_cell.simps [simp del]
declare rle_loop.simps [simp del]

subsection \<open>Conversions between the integer widths\<close>

lemma scast_sint_32_64: "sint (scast (a :: 32 word) :: 64 word) = sint a"
  by (simp add: sint_up_scast is_up)

lemma scast_64_64: "(scast (a :: 64 word) :: 64 word) = a"
  by simp

subsection \<open>Field lookup\<close>

text \<open>
  C8.  A field lookup on a record in which the field is absent, or present with no bytes,
  throws with \<^verbatim>\<open>optional = false\<close> the exception whose message is
  \<^verbatim>\<open>Struct is missing expected element: \<close> followed by the name of the field, and
  returns with \<^verbatim>\<open>optional = true\<close> the null pointer and throws nothing.
\<close>

theorem get_struct_field_absent_or_empty:
  assumes "data_type s = MAT_T_STRUCT" and "data s = StructData fs"
    and "map_of fs name = None \<or> (\<exists>v. map_of fs name = Some v \<and> nbytes v = 0)"
  shows "get_struct_field s name False =
           Inl (Exception (''Struct is missing expected element: '' @ name))
       \<and> get_struct_field s name True = Inr None"
  using assms by (auto simp: get_struct_field_def Mat_VarGetStructField_def)

theorem get_struct_field_absent_or_empty_witness:
  "get_struct_field
     (Matvar [1, 1] MAT_T_STRUCT False 8 8
        (StructData [(''scale'', Matvar [0, 0] MAT_T_DOUBLE False 0 8 (DoubleData []))]))
     ''children'' False
     = Inl (Exception ''Struct is missing expected element: children'')
   \<and> get_struct_field
     (Matvar [1, 1] MAT_T_STRUCT False 8 8
        (StructData [(''scale'', Matvar [0, 0] MAT_T_DOUBLE False 0 8 (DoubleData []))]))
     ''children'' True = Inr None
   \<and> get_struct_field
     (Matvar [1, 1] MAT_T_STRUCT False 8 8
        (StructData [(''scale'', Matvar [0, 0] MAT_T_DOUBLE False 0 8 (DoubleData []))]))
     ''scale'' False
     = Inl (Exception ''Struct is missing expected element: scale'')
   \<and> get_struct_field
     (Matvar [1, 1] MAT_T_STRUCT False 8 8
        (StructData [(''scale'', Matvar [0, 0] MAT_T_DOUBLE False 0 8 (DoubleData []))]))
     ''scale'' True = Inr None"
  using get_struct_field_absent_or_empty
          [of "Matvar [1, 1] MAT_T_STRUCT False 8 8
                 (StructData [(''scale'', Matvar [0, 0] MAT_T_DOUBLE False 0 8 (DoubleData []))])"
              "[(''scale'', Matvar [0, 0] MAT_T_DOUBLE False 0 8 (DoubleData []))]"
              "''children''"]
        get_struct_field_absent_or_empty
          [of "Matvar [1, 1] MAT_T_STRUCT False 8 8
                 (StructData [(''scale'', Matvar [0, 0] MAT_T_DOUBLE False 0 8 (DoubleData []))])"
              "[(''scale'', Matvar [0, 0] MAT_T_DOUBLE False 0 8 (DoubleData []))]"
              "''scale''"]
  by simp

subsection \<open>The image shape\<close>

lemma image_shape_check:
  "(rank v \<noteq> 2 \<or> isComplex v \<or> dims v ! 0 \<noteq> 1 \<or> dims v ! 1 \<noteq> 3)
     = (isComplex v \<or> dims v \<noteq> [1, 3])"
proof (cases "dims v")
  case Nil
  then show ?thesis by (simp add: rank_def)
next
  case (Cons d ds)
  then show ?thesis
    by (cases ds; cases "tl ds") (auto simp: rank_def)
qed

lemma load_image_size_Some:
  "load_image_size (Some v) =
      (if isComplex v \<or> dims v \<noteq> [1, 3] then Inl (Exception ''image_shape is invalid.  '')
       else if data_type v = MAT_T_INT64 then
         (case data v of
            Int64Data d \<Rightarrow>
              if 3 \<le> length d then Inr \<lparr>rows = d ! 0, cols = d ! 1, stride = d ! 2\<rparr>
              else Inl OutOfBoundsRead
          | _ \<Rightarrow> Inl BadCast)
       else if data_type v = MAT_T_INT32 then
         (case data v of
            Int32Data d \<Rightarrow>
              if 3 \<le> length d then
                Inr \<lparr>rows = scast (d ! 0), cols = scast (d ! 1), stride = scast (d ! 2)\<rparr>
              else Inl OutOfBoundsRead
          | _ \<Rightarrow> Inl BadCast)
       else Inl (Exception ''image_shape has unknown type.''))"
  unfolding load_image_size_def image_shape_check by simp

text \<open>
  C5.  On a value of dimensions \<open>[1, 3]\<close> that is not complex and holds the three 32-bit
  elements \<open>a, b, c\<close>, \<^verbatim>\<open>load_image_size\<close> returns \<open>rows = a\<close>, \<open>cols = b\<close>, \<open>stride = c\<close>
  (sign extended to the width of the fields, see \<open>scast_sint_32_64\<close>); on three 64-bit
  elements it returns them as they are.  On every value whose rank is not 2, that is
  complex, or whose dimensions are not \<open>[1, 3]\<close>, it throws
  \<^verbatim>\<open>image_shape is invalid.\<close>, whatever the element type.
\<close>

theorem load_image_size_positional:
  "(dims v = [1, 3] \<and> \<not> isComplex v \<and> data_type v = MAT_T_INT32 \<and> data v = Int32Data [a, b, c]
      \<longrightarrow> load_image_size (Some v) = Inr \<lparr>rows = scast a, cols = scast b, stride = scast c\<rparr>)
 \<and> (dims v = [1, 3] \<and> \<not> isComplex v \<and> data_type v = MAT_T_INT64 \<and> data v = Int64Data [a', b', c']
      \<longrightarrow> load_image_size (Some v) = Inr \<lparr>rows = a', cols = b', stride = c'\<rparr>)
 \<and> (rank v \<noteq> 2 \<or> isComplex v \<or> dims v \<noteq> [1, 3]
      \<longrightarrow> load_image_size (Some v) = Inl (Exception ''image_shape is invalid.  ''))"
proof -
  have "rank v \<noteq> 2 \<Longrightarrow> dims v \<noteq> [1, 3]"
    by (auto simp: rank_def)
  then show ?thesis
    unfolding load_image_size_Some by auto
qed

theorem load_image_size_positional_witness:
  "load_image_size (Some (Matvar [1, 3] MAT_T_INT32 False 12 4 (Int32Data [10, 20, 30])))
     = Inr \<lparr>rows = 10, cols = 20, stride = 30\<rparr>
 \<and> load_image_size (Some (Matvar [1, 3] MAT_T_INT64 False 24 8 (Int64Data [480, 640, 640])))
     = Inr \<lparr>rows = 480, cols = 640, stride = 640\<rparr>
 \<and> load_image_size (Some (Matvar [1, 2] MAT_T_INT32 False 8 4 (Int32Data [10, 20])))
     = Inl (Exception ''image_shape is invalid.  '')"
  using load_image_size_positional
          [of "Matvar [1, 3] MAT_T_INT32 False 12 4 (Int32Data [10, 20, 30])" 10 20 30]
        load_image_size_positional
          [of "Matvar [1, 3] MAT_T_INT64 False 24 8 (Int64Data [480, 640, 640])" _ _ _ 480 640 640]
        load_image_size_positional
          [of "Matvar [1, 2] MAT_T_INT32 False 8 4 (Int32Data [10, 20])"]
  by simp

subsection \<open>The run-length decoder\<close>

text \<open>
  \<^verbatim>\<open>std::fill_n\<close> in one step: \<open>n\<close> assignments that fit overwrite the next \<open>n\<close>
  positions; when they do not fit, one of them is out of bounds.
\<close>

lemma fill_n_fits:
  "i + n \<le> length buf \<Longrightarrow>
     fill_n buf i n v = Inr (take i buf @ replicate n v @ drop (i + n) buf, i + n)"
proof (induction n arbitrary: buf i)
  case 0
  then show ?case by simp
next
  case (Suc n)
  then have i: "i < length buf" by simp
  have "fill_n buf i (Suc n) v = fill_n (buf[i := v]) (Suc i) n v"
    using i by simp
  also have "\<dots> = Inr (take (Suc i) (buf[i := v]) @ replicate n v
                        @ drop (Suc i + n) (buf[i := v]), Suc i + n)"
    using Suc.prems by (intro Suc.IH) simp
  also have "take (Suc i) (buf[i := v]) = take i buf @ [v]"
    using i by (simp add: take_Suc_conv_app_nth)
  also have "drop (Suc i + n) (buf[i := v]) = drop (i + Suc n) buf"
    by simp
  finally show ?case by (simp add: replicate_app_Cons_same)
qed

lemma fill_n_overrun:
  "i \<le> length buf \<Longrightarrow> length buf < i + n \<Longrightarrow> fill_n buf i n v = Inl OutOfBoundsWrite"
proof (induction n arbitrary: buf i)
  case 0
  then show ?case by simp
next
  case (Suc n)
  then show ?case by (cases "i < length buf") auto
qed

lemma length_rle_expand: "length runs = length vals \<Longrightarrow> length (rle_expand (rle_pairs runs vals)) = rle_total runs"
  by (induction runs vals rule: list_induct2) (auto simp: rle_expand_def rle_pairs_def rle_total_def)

lemma rle_total_signed_sum:
  "\<forall>r \<in> set runs. 0 \<le> sint r \<Longrightarrow> int (rle_total runs) = sum_list (map sint runs)"
  by (induction runs) (simp_all add: rle_total_def)

lemma rle_pairs_Cons:
  "rle_expand (rle_pairs (r # runs) (x # vals)) =
     replicate (nat (sint r)) (scast x) @ rle_expand (rle_pairs runs vals)"
  by (simp add: rle_expand_def rle_pairs_def)

lemma take_fill:
  "i + n \<le> length buf \<Longrightarrow>
     take (i + n) (take i buf @ replicate n v @ drop (i + n) buf) = take i buf @ replicate n v"
  by simp

lemma drop_fill:
  "i + n \<le> length buf \<Longrightarrow>
     drop (i + n + k) (take i buf @ replicate n v @ drop (i + n) buf) = drop (i + n + k) buf"
  by (simp add: add.commute)

lemma rle_loop_eq:
  assumes "length runs = N" and "length vals = N"
  shows "elid \<le> N \<Longrightarrow> i \<le> length buf \<Longrightarrow>
     rle_loop (runs @ vals) N elid buf i =
       (let rest = rle_expand (rle_pairs (drop elid runs) (drop elid vals)) in
        if i + length rest \<le> length buf
        then Inr (take i buf @ rest @ drop (i + length rest) buf)
        else Inl OutOfBoundsWrite)"
proof (induction "N - elid" arbitrary: elid buf i)
  case 0
  then have "elid = N" by simp
  then show ?case
    using assms 0 by (simp add: rle_loop.simps [of _ N N] rle_expand_def rle_pairs_def)
next
  case (Suc k)
  then have lt: "elid < N" by simp
  define r where "r = nat (sint (runs ! elid))"
  define x :: "64 word" where "x = scast (vals ! elid)"
  define rest' where "rest' = rle_expand (rle_pairs (drop (Suc elid) runs) (drop (Suc elid) vals))"
  have dr: "drop elid runs = runs ! elid # drop (Suc elid) runs"
    and dv: "drop elid vals = vals ! elid # drop (Suc elid) vals"
    using lt assms by (simp_all add: Cons_nth_drop_Suc)
  have rest: "rle_expand (rle_pairs (drop elid runs) (drop elid vals)) = replicate r x @ rest'"
    unfolding dr dv rle_pairs_Cons r_def x_def rest'_def ..
  have rd: "(runs @ vals) ! elid = runs ! elid" "(runs @ vals) ! (N + elid) = vals ! elid"
    using lt assms by (simp_all add: nth_append)
  have step: "rle_loop (runs @ vals) N elid buf i =
      (case fill_n buf i r x of
         Inl e \<Rightarrow> Inl e
       | Inr (buf', i') \<Rightarrow> rle_loop (runs @ vals) N (Suc elid) buf' i')"
    using lt assms by (subst rle_loop.simps) (simp add: rd r_def x_def)
  show ?case
  proof (cases "i + r \<le> length buf")
    case True
    let ?buf' = "take i buf @ replicate r x @ drop (i + r) buf"
    have len: "length ?buf' = length buf" using True by simp
    have "rle_loop (runs @ vals) N elid buf i = rle_loop (runs @ vals) N (Suc elid) ?buf' (i + r)"
      unfolding step by (simp add: fill_n_fits [OF True])
    also have "\<dots> =
       (if i + r + length rest' \<le> length ?buf'
        then Inr (take (i + r) ?buf' @ rest' @ drop (i + r + length rest') ?buf')
        else Inl OutOfBoundsWrite)"
      using Suc.hyps(1) [of "Suc elid" "i + r" ?buf'] Suc.hyps(2) lt True
      unfolding len rest'_def Let_def by simp
    also have "\<dots> =
       (if i + (r + length rest') \<le> length buf
        then Inr (take i buf @ (replicate r x @ rest') @ drop (i + (r + length rest')) buf)
        else Inl OutOfBoundsWrite)"
      unfolding len take_fill [OF True] drop_fill [OF True] by (simp add: add.assoc)
    finally show ?thesis
      unfolding rest Let_def by simp
  next
    case False
    then have "fill_n buf i r x = Inl OutOfBoundsWrite"
      using Suc.prems by (intro fill_n_overrun) simp_all
    then show ?thesis
      unfolding step rest Let_def using False by simp
  qed
qed

lemma load_rle_data_eq:
  assumes "length runs = N" and "length vals = N"
  shows "load_rle_data (runs @ vals) N sz =
     (if rle_total runs \<le> unat (rows sz * cols sz)
      then Inr (rle_expand (rle_pairs runs vals)
                @ replicate (unat (rows sz * cols sz) - rle_total runs) 0)
      else Inl OutOfBoundsWrite)"
  using assms
  by (simp add: load_rle_data_def rle_loop_eq [OF assms] length_rle_expand Let_def)

lemma rle_shape_check:
  "dims v = [N, 2] \<Longrightarrow> \<not> isComplex v \<Longrightarrow>
     \<not> (rank v \<noteq> 2 \<or> isComplex v \<or> dims v ! 1 \<noteq> 2) \<and> dims v ! 0 = N"
  by (simp add: rank_def)

lemma load_atomic_regions_from_rle_int32:
  assumes "dims v = [N, 2]" "\<not> isComplex v" "data_type v = MAT_T_INT32"
    "data v = Int32Data d"
  shows "load_atomic_regions_from_rle (Some v) sz = load_rle_data d N sz"
  using assms rle_shape_check [OF assms(1,2)]
  by (simp add: load_atomic_regions_from_rle_def)

lemma load_atomic_regions_from_rle_int64:
  assumes "dims v = [N, 2]" "\<not> isComplex v" "data_type v = MAT_T_INT64"
    "data v = Int64Data d"
  shows "load_atomic_regions_from_rle (Some v) sz = load_rle_data d N sz"
  using assms rle_shape_check [OF assms(1,2)]
  by (simp add: load_atomic_regions_from_rle_def)

text \<open>
  C1.  Let the table have \<open>N\<close> rows and second dimension 2, not be complex, and hold
  32-bit or 64-bit integers column by column: the \<open>N\<close> run-lengths, then the \<open>N\<close> values.
  When the sum of the run-lengths is at most \<^verbatim>\<open>rows*cols\<close> (the \<^verbatim>\<open>size_t\<close> product),
  \<^verbatim>\<open>load_atomic_regions_from_rle\<close> returns a buffer of length \<^verbatim>\<open>rows*cols\<close>: the
  concatenation, in source order, of \<open>run_length[i]\<close> repetitions of \<open>value[i]\<close>, followed
  by zeros, the initial value of the buffer, at every position past the sum.  Where no
  run-length is negative, \<open>rle_total\<close> is the plain sum (\<open>rle_total_signed_sum\<close>).
\<close>

theorem rle_decode_expands:
  "(dims v = [N, 2] \<and> \<not> isComplex v \<and> data_type v = MAT_T_INT32
      \<and> data v = Int32Data (runs @ vals) \<and> length runs = N \<and> length vals = N
      \<and> rle_total runs \<le> unat (rows sz * cols sz)
    \<longrightarrow> (\<exists>out. load_atomic_regions_from_rle (Some v) sz = Inr out
          \<and> length out = unat (rows sz * cols sz)
          \<and> out = rle_expand (rle_pairs runs vals)
                  @ replicate (unat (rows sz * cols sz) - rle_total runs) 0))
 \<and> (dims v = [N, 2] \<and> \<not> isComplex v \<and> data_type v = MAT_T_INT64
      \<and> data v = Int64Data (runs' @ vals') \<and> length runs' = N \<and> length vals' = N
      \<and> rle_total runs' \<le> unat (rows sz * cols sz)
    \<longrightarrow> (\<exists>out. load_atomic_regions_from_rle (Some v) sz = Inr out
          \<and> length out = unat (rows sz * cols sz)
          \<and> out = rle_expand (rle_pairs runs' vals')
                  @ replicate (unat (rows sz * cols sz) - rle_total runs') 0))"
  by (auto simp: load_atomic_regions_from_rle_int32 load_atomic_regions_from_rle_int64
      load_rle_data_eq length_rle_expand)

theorem rle_decode_expands_witness:
  "load_atomic_regions_from_rle
     (Some (Matvar [2, 2] MAT_T_INT32 False 16 4 (Int32Data [3, 2, 7, 9])))
     \<lparr>rows = 1, cols = 5, stride = 5\<rparr> = Inr [7, 7, 7, 9, 9]
 \<and> load_atomic_regions_from_rle
     (Some (Matvar [2, 2] MAT_T_INT64 False 32 8 (Int64Data [1, 2, 7, 9])))
     \<lparr>rows = 2, cols = 3, stride = 3\<rparr> = Inr [7, 9, 9, 0, 0, 0]"
proof -
  have e32: "rle_total [3, 2 :: 32 word] = 5"
    "rle_expand (rle_pairs [3, 2 :: 32 word] [7, 9]) = [7, 7, 7, 9, 9]"
    by (simp_all add: rle_total_def rle_expand_def rle_pairs_def numeral_eq_Suc)
  have e64: "rle_total [1, 2 :: 64 word] = 3"
    "rle_expand (rle_pairs [1, 2 :: 64 word] [7, 9]) = [7, 9, 9]"
    by (simp_all add: rle_total_def rle_expand_def rle_pairs_def numeral_eq_Suc)
  have r3: "replicate 3 (0 :: 64 word) = [0, 0, 0]"
    by (simp add: numeral_eq_Suc)
  show ?thesis
    using rle_decode_expands
            [of "Matvar [2, 2] MAT_T_INT32 False 16 4 (Int32Data [3, 2, 7, 9])" 2
                "[3, 2]" "[7, 9]" "\<lparr>rows = 1, cols = 5, stride = 5\<rparr>"]
          rle_decode_expands
            [of "Matvar [2, 2] MAT_T_INT64 False 32 8 (Int64Data [1, 2, 7, 9])" 2
                _ _ "\<lparr>rows = 2, cols = 3, stride = 3\<rparr>" "[1, 2]" "[7, 9]"]
    by (simp add: e32 e64 r3)
qed

text \<open>
  C3.  When the sum of the run-lengths is greater than \<^verbatim>\<open>rows*cols\<close>, the source has no
  check that stops the decoding: no exception is thrown, and one of the assignments of
  \<^verbatim>\<open>std::fill_n\<close> is past the end of the buffer.
\<close>

theorem rle_overrun_out_of_bounds:
  "(dims v = [N, 2] \<and> \<not> isComplex v \<and> data_type v = MAT_T_INT32
      \<and> data v = Int32Data (runs @ vals) \<and> length runs = N \<and> length vals = N
      \<and> unat (rows sz * cols sz) < rle_total runs
    \<longrightarrow> load_atomic_regions_from_rle (Some v) sz = Inl OutOfBoundsWrite)
 \<and> (dims v = [N, 2] \<and> \<not> isComplex v \<and> data_type v = MAT_T_INT64
      \<and> data v = Int64Data (runs' @ vals') \<and> length runs' = N \<and> length vals' = N
      \<and> unat (rows sz * cols sz) < rle_total runs'
    \<longrightarrow> load_atomic_regions_from_rle (Some v) sz = Inl OutOfBoundsWrite)"
  by (auto simp: load_atomic_regions_from_rle_int32 load_atomic_regions_from_rle_int64
      load_rle_data_eq)

theorem rle_overrun_out_of_bounds_witness:
  "load_atomic_regions_from_rle
     (Some (Matvar [2, 2] MAT_T_INT32 False 16 4 (Int32Data [3, 3, 7, 9])))
     \<lparr>rows = 1, cols = 5, stride = 5\<rparr> = Inl OutOfBoundsWrite
 \<and> load_atomic_regions_from_rle
     (Some (Matvar [1, 2] MAT_T_INT64 False 16 8 (Int64Data [7, 4])))
     \<lparr>rows = 2, cols = 3, stride = 3\<rparr> = Inl OutOfBoundsWrite"
proof -
  have e32: "rle_total [3, 3 :: 32 word] = 6"
    by (simp add: rle_total_def)
  have e64: "rle_total [7 :: 64 word] = 7"
    by (simp add: rle_total_def)
  show ?thesis
    using rle_overrun_out_of_bounds
            [of "Matvar [2, 2] MAT_T_INT32 False 16 4 (Int32Data [3, 3, 7, 9])" 2
                "[3, 3]" "[7, 9]" "\<lparr>rows = 1, cols = 5, stride = 5\<rparr>"]
          rle_overrun_out_of_bounds
            [of "Matvar [1, 2] MAT_T_INT64 False 16 8 (Int64Data [7, 4])" 1
                _ _ "\<lparr>rows = 2, cols = 3, stride = 3\<rparr>" "[7]" "[4]"]
    by (simp add: e32 e64)
qed

lemma fill_n_length:
  "fill_n buf i n v = Inr (buf', i') \<Longrightarrow> length buf' = length buf"
  by (induction buf i n v rule: fill_n.induct) (auto split: if_splits)

lemma rle_loop_length:
  "rle_loop d N elid buf i = Inr out \<Longrightarrow> length out = length buf"
proof (induction d N elid buf i rule: rle_loop.induct)
  case (1 d N elid buf i)
  show ?case
  proof (cases "elid < N")
    case False
    with "1.prems" show ?thesis by (simp add: rle_loop.simps [of d N elid])
  next
    case True
    with "1.prems" obtain buf' i' where
      f: "fill_n buf i (nat (sint (d ! elid))) (scast (d ! (N + elid))) = Inr (buf', i')"
      and r: "rle_loop d N (Suc elid) buf' i' = Inr out"
      and b: "N + elid < length d"
      by (subst (asm) rle_loop.simps) (auto simp: Let_def split: if_splits sum.splits)
    from "1.IH" [OF True b refl refl f refl r] fill_n_length [OF f]
    show ?thesis by simp
  qed
qed

lemma load_rle_data_length:
  "load_rle_data d N sz = Inr out \<Longrightarrow> length out = unat (rows sz * cols sz)"
  unfolding load_rle_data_def by (drule rle_loop_length) simp

text \<open>
  C10.  Two image sizes with the same \<open>rows\<close> and the same \<open>cols\<close> give the same outcome of
  \<^verbatim>\<open>load_atomic_regions_from_rle\<close> on every input, whatever their \<open>stride\<close>; and a
  buffer that is returned has length \<^verbatim>\<open>rows*cols\<close>.
\<close>

theorem rle_ignores_stride:
  assumes "rows sz1 = rows sz2" and "cols sz1 = cols sz2"
  shows "load_atomic_regions_from_rle r sz1 = load_atomic_regions_from_rle r sz2
       \<and> (\<forall>out. load_atomic_regions_from_rle r sz1 = Inr out
             \<longrightarrow> length out = unat (rows sz1 * cols sz1))"
proof -
  have eq: "load_rle_data d N sz1 = load_rle_data d N sz2"
    for d :: "'a::len word list" and N
    using assms by (simp add: load_rle_data_def)
  have "load_atomic_regions_from_rle r sz1 = load_atomic_regions_from_rle r sz2"
    by (auto simp: load_atomic_regions_from_rle_def eq split: option.splits mat_data.splits)
  moreover have "length out = unat (rows sz1 * cols sz1)"
    if "load_atomic_regions_from_rle r sz1 = Inr out" for out
    using that
    by (auto simp: load_atomic_regions_from_rle_def dest: load_rle_data_length
        split: option.splits if_splits mat_data.splits)
  ultimately show ?thesis by blast
qed

theorem rle_ignores_stride_witness:
  "load_atomic_regions_from_rle
     (Some (Matvar [2, 2] MAT_T_INT32 False 16 4 (Int32Data [3, 2, 7, 9])))
     \<lparr>rows = 1, cols = 5, stride = 5\<rparr>
   = load_atomic_regions_from_rle
     (Some (Matvar [2, 2] MAT_T_INT32 False 16 4 (Int32Data [3, 2, 7, 9])))
     \<lparr>rows = 1, cols = 5, stride = 64\<rparr>
 \<and> load_atomic_regions_from_rle
     (Some (Matvar [2, 2] MAT_T_INT32 False 16 4 (Int32Data [3, 2, 7, 9])))
     \<lparr>rows = 1, cols = 5, stride = 5\<rparr> = Inr [7, 7, 7, 9, 9]
 \<and> length [7, 7, 7, 9, 9 :: 64 word] = unat (1 * 5 :: 64 word)"
proof -
  have ev: "load_atomic_regions_from_rle
     (Some (Matvar [2, 2] MAT_T_INT32 False 16 4 (Int32Data [3, 2, 7, 9])))
     \<lparr>rows = 1, cols = 5, stride = 5\<rparr> = Inr [7, 7, 7, 9, 9]"
    by code_simp
  show ?thesis
    using rle_ignores_stride
            [of "\<lparr>rows = 1, cols = 5, stride = 5\<rparr>" "\<lparr>rows = 1, cols = 5, stride = 64\<rparr>"
                "Some (Matvar [2, 2] MAT_T_INT32 False 16 4 (Int32Data [3, 2, 7, 9]))"]
    by (simp add: ev)
qed

subsection \<open>The region loader\<close>

lemma map_scast_64_64: "map scast (ys :: 64 word list) = ys"
  by (induction ys) simp_all

lemma load_region_field:
  assumes "data_type s = MAT_T_STRUCT" and "data s = StructData fs"
    and "map_of fs ''list_of_atomic_superpixels'' = Some l" and "0 < nbytes l"
    and "0 < data_size l"
  shows "load_region s =
     (if data_type l = MAT_T_INT32 then
        (case data l of
           Int32Data atomic_list \<Rightarrow>
             map_sum id CompoundRegion (copy_elements (nbytes l div data_size l) atomic_list)
         | _ \<Rightarrow> Inl BadCast)
      else if data_type l = MAT_T_INT64 then
        (case data l of
           Int64Data atomic_list \<Rightarrow>
             map_sum id CompoundRegion (copy_elements (nbytes l div data_size l) atomic_list)
         | _ \<Rightarrow> Inl BadCast)
      else Inl (Exception ''list_of_atomic_superpixels has unknown type''))"
  using assms
  by (simp add: load_region_def get_struct_field_def Mat_VarGetStructField_def)

lemma load_region_empty_field:
  assumes "data_type s = MAT_T_STRUCT" and "data s = StructData fs"
    and "map_of fs ''list_of_atomic_superpixels'' = Some l" and "nbytes l = 0"
  shows "load_region s =
     Inl (Exception ''Struct is missing expected element: list_of_atomic_superpixels'')"
  using assms
  by (simp add: load_region_def get_struct_field_def Mat_VarGetStructField_def)

text \<open>
  C4, as stated, at a membership list with no element: the field is there, its type is
  \<^verbatim>\<open>int32\<close>, it has \<open>0 / 4 = 0\<close> elements, and \<^verbatim>\<open>load_region\<close> does not return the
  empty sequence: \<^verbatim>\<open>get_struct_field\<close> takes a field of no bytes for a missing one and
  throws.
\<close>

theorem load_region_empty_list_counterexample:
  "nbytes (Matvar [0, 0] MAT_T_INT32 False 0 4 (Int32Data [])) div
     data_size (Matvar [0, 0] MAT_T_INT32 False 0 4 (Int32Data [])) = 0
 \<and> load_region
     (Matvar [1, 1] MAT_T_STRUCT False 8 8
        (StructData
           [(''list_of_atomic_superpixels'',
             Matvar [0, 0] MAT_T_INT32 False 0 4 (Int32Data []))]))
   = Inl (Exception ''Struct is missing expected element: list_of_atomic_superpixels'')"
  by (simp add: load_region_def get_struct_field_def Mat_VarGetStructField_def)

text \<open>
  C4, amended.  For a record whose field \<^verbatim>\<open>list_of_atomic_superpixels\<close> has at least one
  byte, has the element type \<^verbatim>\<open>int32\<close> or \<^verbatim>\<open>int64\<close> and holds \<open>N = nbytes / data_size\<close>
  elements, \<^verbatim>\<open>load_region\<close> returns a membership sequence of exactly \<open>N\<close> elements, each
  the source element at the same position converted to the 64-bit type (the same signed
  value).  For a field of no bytes it throws the exception of the missing field.
\<close>

theorem load_region_widens:
  assumes "data_type s = MAT_T_STRUCT" and "data s = StructData fs"
    and "map_of fs ''list_of_atomic_superpixels'' = Some l"
    and "0 < data_size l" and "N = nbytes l div data_size l"
  shows
   "(0 < nbytes l \<and> data_type l = MAT_T_INT32 \<and> data l = Int32Data xs \<and> length xs = N
       \<longrightarrow> load_region s = Inr (CompoundRegion (map scast xs))
         \<and> length (map scast xs :: 64 word list) = N
         \<and> map sint (map scast xs :: 64 word list) = map sint xs)
  \<and> (0 < nbytes l \<and> data_type l = MAT_T_INT64 \<and> data l = Int64Data ys \<and> length ys = N
       \<longrightarrow> load_region s = Inr (CompoundRegion ys))
  \<and> (nbytes l = 0 \<longrightarrow> load_region s =
         Inl (Exception ''Struct is missing expected element: list_of_atomic_superpixels''))"
  using assms
  by (auto simp: load_region_field [OF assms(1-3)] load_region_empty_field [OF assms(1-3)]
      copy_elements_def map_scast_64_64 scast_sint_32_64)

theorem load_region_widens_witness:
  "load_region
     (Matvar [1, 1] MAT_T_STRUCT False 8 8
        (StructData
           [(''list_of_atomic_superpixels'',
             Matvar [1, 3] MAT_T_INT32 False 12 4 (Int32Data [4, - 1, 2]))]))
    = Inr (CompoundRegion [4, - 1, 2])
 \<and> map sint [4, - 1, 2 :: 64 word] = map sint [4, - 1, 2 :: 32 word]
 \<and> load_region
     (Matvar [1, 1] MAT_T_STRUCT False 8 8
        (StructData
           [(''list_of_atomic_superpixels'',
             Matvar [1, 2] MAT_T_INT64 False 16 8 (Int64Data [7, 5]))]))
    = Inr (CompoundRegion [7, 5])
 \<and> load_region
     (Matvar [1, 1] MAT_T_STRUCT False 8 8
        (StructData
           [(''list_of_atomic_superpixels'',
             Matvar [0, 0] MAT_T_INT32 False 0 4 (Int32Data []))]))
    = Inl (Exception ''Struct is missing expected element: list_of_atomic_superpixels'')"
  using load_region_widens
          [of "Matvar [1, 1] MAT_T_STRUCT False 8 8
                 (StructData
                    [(''list_of_atomic_superpixels'',
                      Matvar [1, 3] MAT_T_INT32 False 12 4 (Int32Data [4, - 1, 2]))])"
              "[(''list_of_atomic_superpixels'',
                 Matvar [1, 3] MAT_T_INT32 False 12 4 (Int32Data [4, - 1, 2]))]"
              "Matvar [1, 3] MAT_T_INT32 False 12 4 (Int32Data [4, - 1, 2])" 3
              "[4, - 1, 2]"]
        load_region_widens
          [of "Matvar [1, 1] MAT_T_STRUCT False 8 8
                 (StructData
                    [(''list_of_atomic_superpixels'',
                      Matvar [1, 2] MAT_T_INT64 False 16 8 (Int64Data [7, 5]))])"
              "[(''list_of_atomic_superpixels'',
                 Matvar [1, 2] MAT_T_INT64 False 16 8 (Int64Data [7, 5]))]"
              "Matvar [1, 2] MAT_T_INT64 False 16 8 (Int64Data [7, 5])" 2 _
              "[7, 5]"]
        load_region_widens
          [of "Matvar [1, 1] MAT_T_STRUCT False 8 8
                 (StructData
                    [(''list_of_atomic_superpixels'',
                      Matvar [0, 0] MAT_T_INT32 False 0 4 (Int32Data []))])"
              "[(''list_of_atomic_superpixels'',
                 Matvar [0, 0] MAT_T_INT32 False 0 4 (Int32Data []))]"
              "Matvar [0, 0] MAT_T_INT32 False 0 4 (Int32Data [])" 0]
  by simp

subsection \<open>Element types that are not accepted\<close>

text \<open>
  C7, as stated, at an array of doubles of dimensions \<open>[1, 2]\<close> handed to
  \<^verbatim>\<open>load_image_size\<close>: the element type is neither \<^verbatim>\<open>int32\<close> nor \<^verbatim>\<open>int64\<close>, and the
  exception is the one of the shape check, which comes first, not the one of the type.
\<close>

theorem unsupported_type_after_shape_counterexample:
  "data_type (Matvar [1, 2] MAT_T_DOUBLE False 16 8 (DoubleData [10, 20])) \<notin> {MAT_T_INT32, MAT_T_INT64}
 \<and> load_image_size (Some (Matvar [1, 2] MAT_T_DOUBLE False 16 8 (DoubleData [10, 20])))
     = Inl (Exception ''image_shape is invalid.  '')
 \<and> load_image_size (Some (Matvar [1, 2] MAT_T_DOUBLE False 16 8 (DoubleData [10, 20])))
     \<noteq> Inl (Exception ''image_shape has unknown type.'')"
  by (simp add: load_image_size_Some)

lemma load_atomic_regions_from_rle_Some:
  "rank v = 2 \<Longrightarrow> \<not> isComplex v \<Longrightarrow> dims v ! 1 = 2 \<Longrightarrow>
   load_atomic_regions_from_rle (Some v) sz =
     (if data_type v = MAT_T_INT64 then
        (case data v of Int64Data d \<Rightarrow> load_rle_data d (dims v ! 0) sz | _ \<Rightarrow> Inl BadCast)
      else if data_type v = MAT_T_INT32 then
        (case data v of Int32Data d \<Rightarrow> load_rle_data d (dims v ! 0) sz | _ \<Rightarrow> Inl BadCast)
      else Inl (Exception ''atomic_SLIC_rle has unknown type.''))"
  by (simp add: load_atomic_regions_from_rle_def)

text \<open>
  C7, amended.  Let the element type of a value be neither \<^verbatim>\<open>int32\<close> nor \<^verbatim>\<open>int64\<close>.
  Every loader fails on it, with the exception of the first of its checks that fails:
  \<^item> \<^verbatim>\<open>load_image_size\<close> with the exception of the shape when the value is not of rank 2,
    not complex and of dimensions \<open>[1, 3]\<close>, and with the one of the unknown type otherwise;
  \<^item> \<^verbatim>\<open>load_atomic_regions_from_rle\<close> with the exception of the shape when the value is
    not of rank 2, not complex and of second dimension 2, and with the one of the unknown
    type otherwise;
  \<^item> \<^verbatim>\<open>load_region\<close> with the exception for what is not a record on every value that is
    not one (the array itself, say); on a record that holds the value as its field
    \<^verbatim>\<open>list_of_atomic_superpixels\<close>, with the exception of the missing field when the field
    has no bytes, and with the one of the unknown type otherwise (the division by an
    element size of 0 comes before the type is looked at).
  No loader returns a result for it.
\<close>

theorem unknown_type_rejected:
  assumes "data_type l \<noteq> MAT_T_INT32" and "data_type l \<noteq> MAT_T_INT64"
  shows
   "load_image_size (Some l) =
      Inl (Exception (if rank l \<noteq> 2 \<or> isComplex l \<or> dims l \<noteq> [1, 3]
                      then ''image_shape is invalid.  ''
                      else ''image_shape has unknown type.''))
  \<and> load_atomic_regions_from_rle (Some l) sz =
      Inl (Exception (if rank l \<noteq> 2 \<or> isComplex l \<or> dims l ! 1 \<noteq> 2
                      then ''atomic_SLIC_rle is invalid.''
                      else ''atomic_SLIC_rle has unknown type.''))
  \<and> (data_type s \<noteq> MAT_T_STRUCT
       \<longrightarrow> load_region s = Inl (Exception ''cells should have struct array''))
  \<and> (data_type s = MAT_T_STRUCT
         \<and> Mat_VarGetStructField s ''list_of_atomic_superpixels'' = Some l
       \<longrightarrow> load_region s =
            (if nbytes l = 0 then
               Inl (Exception ''Struct is missing expected element: list_of_atomic_superpixels'')
             else if data_size l = 0 then Inl DivisionByZero
             else Inl (Exception ''list_of_atomic_superpixels has unknown type'')))
  \<and> (Mat_VarGetStructField s ''list_of_atomic_superpixels'' = Some l
       \<longrightarrow> (\<forall>r. load_region s \<noteq> Inr r))
  \<and> (\<forall>r. load_image_size (Some l) \<noteq> Inr r)
  \<and> (\<forall>out. load_atomic_regions_from_rle (Some l) sz \<noteq> Inr out)"
proof -
  have shape: "load_image_size (Some l) =
      Inl (Exception (if rank l \<noteq> 2 \<or> isComplex l \<or> dims l \<noteq> [1, 3]
                      then ''image_shape is invalid.  ''
                      else ''image_shape has unknown type.''))"
    using assms by (auto simp: load_image_size_Some rank_def)
  have rle: "load_atomic_regions_from_rle (Some l) sz =
      Inl (Exception (if rank l \<noteq> 2 \<or> isComplex l \<or> dims l ! 1 \<noteq> 2
                      then ''atomic_SLIC_rle is invalid.''
                      else ''atomic_SLIC_rle has unknown type.''))"
    using assms by (simp add: load_atomic_regions_from_rle_def)
  have not_record: "load_region s = Inl (Exception ''cells should have struct array'')"
    if "data_type s \<noteq> MAT_T_STRUCT"
    using that by (simp add: load_region_def)
  have is_record: "load_region s =
            (if nbytes l = 0 then
               Inl (Exception ''Struct is missing expected element: list_of_atomic_superpixels'')
             else if data_size l = 0 then Inl DivisionByZero
             else Inl (Exception ''list_of_atomic_superpixels has unknown type''))"
    if "data_type s = MAT_T_STRUCT"
      and "Mat_VarGetStructField s ''list_of_atomic_superpixels'' = Some l"
    using that assms by (simp add: load_region_def get_struct_field_def)
  have never: "load_region s \<noteq> Inr r"
    if "Mat_VarGetStructField s ''list_of_atomic_superpixels'' = Some l" for r
    using that not_record is_record by (cases "data_type s = MAT_T_STRUCT") simp_all
  show ?thesis
    unfolding shape rle using not_record is_record never by simp
qed

theorem unknown_type_rejected_witness:
  "load_image_size (Some (Matvar [1, 3] MAT_T_DOUBLE False 24 8 (DoubleData [1, 2, 3])))
    = Inl (Exception ''image_shape has unknown type.'')
 \<and> load_image_size (Some (Matvar [1, 5] MAT_T_UTF8 False 5 1 (OtherData [104, 101, 108, 108, 111])))
    = Inl (Exception ''image_shape is invalid.  '')
 \<and> load_atomic_regions_from_rle
      (Some (Matvar [2, 2] MAT_T_UINT8 False 4 1 (OtherData [3, 2, 7, 9])))
      \<lparr>rows = 1, cols = 5, stride = 5\<rparr>
    = Inl (Exception ''atomic_SLIC_rle has unknown type.'')
 \<and> load_atomic_regions_from_rle
      (Some (Matvar [1, 5] MAT_T_UTF8 False 5 1 (OtherData [104, 101, 108, 108, 111])))
      \<lparr>rows = 1, cols = 5, stride = 5\<rparr>
    = Inl (Exception ''atomic_SLIC_rle is invalid.'')
 \<and> load_region (Matvar [1, 3] MAT_T_DOUBLE False 24 8 (DoubleData [1, 2, 3]))
    = Inl (Exception ''cells should have struct array'')
 \<and> load_region
     (Matvar [1, 1] MAT_T_STRUCT False 8 8
        (StructData
           [(''list_of_atomic_superpixels'',
             Matvar [1, 3] MAT_T_DOUBLE False 24 8 (DoubleData [1, 2, 3]))]))
    = Inl (Exception ''list_of_atomic_superpixels has unknown type'')
 \<and> load_region
     (Matvar [1, 1] MAT_T_STRUCT False 8 8
        (StructData
           [(''list_of_atomic_superpixels'',
             Matvar [0, 0] MAT_T_DOUBLE False 0 8 (DoubleData []))]))
    = Inl (Exception ''Struct is missing expected element: list_of_atomic_superpixels'')"
proof -
  let ?d = "Matvar [1, 3] MAT_T_DOUBLE False 24 8 (DoubleData [1, 2, 3])"
  let ?u = "Matvar [1, 5] MAT_T_UTF8 False 5 1 (OtherData [104, 101, 108, 108, 111])"
  let ?b = "Matvar [2, 2] MAT_T_UINT8 False 4 1 (OtherData [3, 2, 7, 9])"
  let ?z = "Matvar [0, 0] MAT_T_DOUBLE False 0 8 (DoubleData [])"
  let ?sd = "Matvar [1, 1] MAT_T_STRUCT False 8 8
               (StructData [(''list_of_atomic_superpixels'', ?d)])"
  let ?sz = "Matvar [1, 1] MAT_T_STRUCT False 8 8
               (StructData [(''list_of_atomic_superpixels'', ?z)])"
  let ?size = "\<lparr>rows = 1, cols = 5, stride = 5\<rparr> :: image_size"
  have f: "Mat_VarGetStructField ?sd ''list_of_atomic_superpixels'' = Some ?d"
    "Mat_VarGetStructField ?sz ''list_of_atomic_superpixels'' = Some ?z"
    by (simp_all add: Mat_VarGetStructField_def)
  from unknown_type_rejected [of ?d ?size ?d] unknown_type_rejected [of ?u ?size]
    unknown_type_rejected [of ?b ?size] unknown_type_rejected [of ?d ?size ?sd]
    unknown_type_rejected [of ?z ?size ?sz] f
  show ?thesis
    by (simp add: rank_def)
qed

subsection \<open>The tree loader: allocation and failure\<close>

lemma returns_or_throws_simps [simp]:
  "returns_or_throws (Inr x)" "returns_or_throws (Inl e) = thrown e"
  by (simp_all add: returns_or_throws_def)

lemma thrown_simps [simp]:
  "thrown (Exception msg)"
  "\<not> thrown OutOfBoundsRead" "\<not> thrown OutOfBoundsWrite"
  "\<not> thrown DivisionByZero" "\<not> thrown NullDereference"
  "\<not> thrown BadCast"
  by (simp_all add: thrown_def)

lemma int_cast_small: "n \<le> 2147483647 \<Longrightarrow> int_cast n = int n"
  unfolding int_cast_def
  by (simp add: sint_uint signed_take_bit_int_eq_self take_bit_nat_eq_self unsigned_of_nat
      take_bit_int_eq_self)

lemma load_region_node_from_cell_array_unfold:
  assumes "data_type t = MAT_T_CELL" and "1 \<le> nbytes t"
    and "Mat_VarGetCellsLinear t (int_cast (get_total_element_count t)) = Inr (Some all_cells)"
  shows "load_region_node_from_cell_array f t live =
     (case load_cells f all_cells (Suc live) of
        (Inl (Exception msg), live') \<Rightarrow> (Inl (Exception msg), live' - 1)
      | (Inl e, live') \<Rightarrow> (Inl e, live')
      | (Inr output, live') \<Rightarrow>
          if length all_cells < get_total_element_count t then (Inl OutOfBoundsRead, live')
          else (Inr output, live' - 1))"
  using assms by (subst load_region_node_from_cell_array.simps) (simp add: Let_def)

lemma load_region_node_from_cell_array_cells:
  assumes "data_type t = MAT_T_CELL" and "1 \<le> nbytes t"
    and "get_total_element_count t \<le> 2147483647"
    and "Mat_VarGetCellsLinear t (int (get_total_element_count t)) = Inr (Some all_cells)"
  shows "load_region_node_from_cell_array f t live =
     (case load_cells f all_cells (Suc live) of
        (Inl (Exception msg), live') \<Rightarrow> (Inl (Exception msg), live' - 1)
      | (Inl e, live') \<Rightarrow> (Inl e, live')
      | (Inr output, live') \<Rightarrow> (Inr output, live' - 1))"
proof -
  have len: "length all_cells = get_total_element_count t"
    using assms(4)
    by (auto simp: Mat_VarGetCellsLinear_def split: mat_data.splits if_splits)
  have "Mat_VarGetCellsLinear t (int_cast (get_total_element_count t)) = Inr (Some all_cells)"
    using assms(3,4) by (simp add: int_cast_small)
  from load_region_node_from_cell_array_unfold [OF assms(1,2) this, of f live]
  show ?thesis
    unfolding len by (simp split: prod.splits sum.splits error.splits)
qed

lemma live_restored:
  "returns_or_throws (fst (load_region_node_from_cell_array f t live))
     \<Longrightarrow> snd (load_region_node_from_cell_array f t live) = live"
  "returns_or_throws (fst (load_cells f cs live)) \<Longrightarrow> snd (load_cells f cs live) = live"
  "returns_or_throws (fst (load_cell f c live)) \<Longrightarrow> snd (load_cell f c live) = live"
proof (induction f t live and f cs live and f c live
    rule: load_region_node_from_cell_array_load_cells_load_cell.induct)
  case (1 f t live)
  show ?case
  proof (cases "data_type t = MAT_T_CELL \<and> 1 \<le> nbytes t
      \<and> (\<exists>cs. Mat_VarGetCellsLinear t (int_cast (get_total_element_count t))
                 = Inr (Some cs))")
    case True
    then obtain cs where
      cs: "Mat_VarGetCellsLinear t (int_cast (get_total_element_count t)) = Inr (Some cs)"
      by blast
    note eq = load_region_node_from_cell_array_unfold [OF _ _ cs, of f live]
    obtain r live' where l: "load_cells f cs (Suc live) = (r, live')"
      by (cases "load_cells f cs (Suc live)")
    have ih: "returns_or_throws r \<Longrightarrow> live' = Suc live"
      using "1.IH" [OF _ refl cs refl] True l by simp
    from "1.prems" True ih show ?thesis
      by (auto simp: eq l split: sum.splits error.splits)
  next
    case False
    then show ?thesis
      by (subst load_region_node_from_cell_array.simps)
        (auto simp: Let_def split: sum.splits option.splits)
  qed
next
  case (2 f live)
  then show ?case by simp
next
  case (3 f c cs live)
  obtain x y where l: "load_cell f c live = (x, y)"
    by (cases "load_cell f c live")
  show ?case
  proof (cases x)
    case (Inl e)
    with "3.prems" "3.IH"(1) l show ?thesis by auto
  next
    case (Inr node)
    with "3.IH"(1) l have y: "y = live" by simp
    obtain r live' where r: "load_cells f cs live = (r, live')"
      by (cases "load_cells f cs live")
    from "3.prems" have "returns_or_throws r"
      by (cases r) (simp_all add: l Inr y r)
    with "3.IH"(2) [OF l [symmetric] Inr] have "live' = live"
      by (simp add: y r)
    then show ?thesis
      by (cases r) (simp_all add: l Inr y r)
  qed
next
  case (4 f c live)
  show ?case
  proof (cases "\<exists>b sv s ch. load_region c = Inr b
      \<and> get_struct_field c ''scale'' False = Inr (Some sv)
      \<and> load_scale f sv = Inr s \<and> get_struct_field c ''children'' True = Inr (Some ch)")
    case True
    then obtain b sv s ch where h: "load_region c = Inr b"
      "get_struct_field c ''scale'' False = Inr (Some sv)"
      "load_scale f sv = Inr s" "get_struct_field c ''children'' True = Inr (Some ch)"
      by blast
    obtain r live' where r: "load_region_node_from_cell_array f ch live = (r, live')"
      by (cases "load_region_node_from_cell_array f ch live")
    have eq: "load_cell f c live =
        (case r of Inl e \<Rightarrow> (Inl e, live') | Inr nodes \<Rightarrow> (Inr (HierarchicalRegion b s nodes), live'))"
      by (subst load_cell.simps) (simp add: h r split: sum.splits)
    from "4.prems" have "returns_or_throws r"
      by (cases r) (simp_all add: eq)
    with "4.IH" [OF h(1,2) refl h(3,4) refl] have "live' = live"
      by (simp add: r)
    then show ?thesis
      by (cases r) (simp_all add: eq)
  next
    case False
    then show ?thesis
      by (subst load_cell.simps) (auto split: sum.splits option.splits)
  qed
qed

lemma load_cells_Cons_Inl:
  "fst (load_cell f c live) = Inl e \<Longrightarrow> fst (load_cells f (c # cs) live) = Inl e"
  by (cases "load_cell f c live") (simp split: sum.splits)

lemma load_cells_Cons_Inr:
  assumes "fst (load_cell f c live) = Inr node"
  shows "load_cells f (c # cs) live =
     (case load_cells f cs live of
        (Inl e, live'') \<Rightarrow> (Inl e, live'')
      | (Inr nodes, live'') \<Rightarrow> (Inr (node # nodes), live''))"
proof -
  have "snd (load_cell f c live) = live"
    using assms by (intro live_restored) simp
  with assms have "load_cell f c live = (Inr node, live)"
    by (cases "load_cell f c live") simp
  then show ?thesis by simp
qed

lemma load_cells_abort:
  assumes "i < length cells"
    and "\<forall>j<i. \<exists>node. fst (load_cell f (cells ! j) live) = Inr node"
    and "fst (load_cell f (cells ! i) live) = Inl e"
  shows "fst (load_cells f cells live) = Inl e"
  using assms
proof (induction cells arbitrary: i)
  case Nil
  then show ?case by simp
next
  case (Cons c cs)
  show ?case
  proof (cases i)
    case 0
    with Cons.prems(3) have "fst (load_cell f c live) = Inl e" by simp
    then show ?thesis by (rule load_cells_Cons_Inl)
  next
    case (Suc k)
    with Cons.prems obtain node where n: "fst (load_cell f c live) = Inr node"
      by fastforce
    have "fst (load_cells f cs live) = Inl e"
    proof (rule Cons.IH [of k])
      show "k < length cs" using Cons.prems Suc by simp
      show "\<forall>j<k. \<exists>node. fst (load_cell f (cs ! j) live) = Inr node"
        using Cons.prems(2) Suc by (metis Suc_less_eq nth_Cons_Suc)
      show "fst (load_cell f (cs ! k) live) = Inl e"
        using Cons.prems(3) Suc by simp
    qed
    then show ?thesis
      unfolding load_cells_Cons_Inr [OF n]
      by (cases "load_cells f cs live") simp
  qed
qed

lemma Mat_VarGetCellsLinear_all:
  "data t = CellData cells \<Longrightarrow> n = length cells \<Longrightarrow>
     Mat_VarGetCellsLinear t (int n) = Inr (Some cells)"
  by (simp add: Mat_VarGetCellsLinear_def)

lemma get_struct_field_optional:
  "get_struct_field c name True =
     (case Mat_VarGetStructField c name of
        None \<Rightarrow> Inr None
      | Some v \<Rightarrow> if nbytes v = 0 then Inr None else Inr (Some v))"
  by (simp add: get_struct_field_def split: option.splits)

lemma load_cell_leaf:
  assumes "load_region c = Inr b" and "get_struct_field c ''scale'' False = Inr (Some sv)"
    and "load_scale f sv = Inr s" and "get_struct_field c ''children'' True = Inr None"
  shows "load_cell f c live = (Inr (HierarchicalRegion b s []), live)"
  using assms by (subst load_cell.simps) simp

lemma load_cell_inner:
  assumes "load_region c = Inr b" and "get_struct_field c ''scale'' False = Inr (Some sv)"
    and "load_scale f sv = Inr s" and "get_struct_field c ''children'' True = Inr (Some ch)"
    and "load_region_node_from_cell_array f ch live = (Inr nodes, live')"
  shows "load_cell f c live = (Inr (HierarchicalRegion b s nodes), live')"
  using assms by (subst load_cell.simps) simp

lemma load_cell_failure:
  "load_region c = Inl e \<Longrightarrow> load_cell f c live = (Inl e, live)"
  "load_region c = Inr b \<Longrightarrow> get_struct_field c ''scale'' False = Inl e
     \<Longrightarrow> load_cell f c live = (Inl e, live)"
  "load_region c = Inr b \<Longrightarrow> get_struct_field c ''scale'' False = Inr (Some sv)
     \<Longrightarrow> load_scale f sv = Inl e \<Longrightarrow> load_cell f c live = (Inl e, live)"
  "load_region c = Inr b \<Longrightarrow> get_struct_field c ''scale'' False = Inr (Some sv)
     \<Longrightarrow> load_scale f sv = Inr s \<Longrightarrow> get_struct_field c ''children'' True = Inr (Some ch)
     \<Longrightarrow> fst (load_region_node_from_cell_array f ch live) = Inl e
     \<Longrightarrow> fst (load_cell f c live) = Inl e"
  by (subst load_cell.simps, auto split: prod.splits sum.splits)+

text \<open>
  C9.  Let the loader be called on a cell array whose elements before the \<open>i\<close>-th load and
  whose \<open>i\<close>-th element throws.  Then the call ends with that same exception and returns no
  sequence of nodes, and the array \<^verbatim>\<open>all_cells\<close> of the call has been freed: the number
  of live arrays is what it was before the call.  The exception of an element is the one
  thrown by \<^verbatim>\<open>load_region\<close>, by a lookup of a field, by the type check of the scale, or
  by the recursive call on the children, unchanged.
\<close>

theorem load_tree_aborts_on_first_error:
  "(data_type t = MAT_T_CELL \<and> 1 \<le> nbytes t \<and> data t = CellData cells
      \<and> get_total_element_count t = length cells \<and> length cells \<le> 2147483647
      \<and> i < length cells
      \<and> (\<forall>j<i. \<exists>node. fst (load_cell f (cells ! j) (Suc live)) = Inr node)
      \<and> fst (load_cell f (cells ! i) (Suc live)) = Inl (Exception msg)
    \<longrightarrow> load_region_node_from_cell_array f t live = (Inl (Exception msg), live))
 \<and> (load_region c = Inl e \<longrightarrow> fst (load_cell f c live) = Inl e)
 \<and> (load_region c = Inr b \<and> get_struct_field c ''scale'' False = Inl e
    \<longrightarrow> fst (load_cell f c live) = Inl e)
 \<and> (load_region c = Inr b \<and> get_struct_field c ''scale'' False = Inr (Some sv)
      \<and> load_scale f sv = Inl e
    \<longrightarrow> fst (load_cell f c live) = Inl e)
 \<and> (load_region c = Inr b \<and> get_struct_field c ''scale'' False = Inr (Some sv)
      \<and> load_scale f sv = Inr s \<and> get_struct_field c ''children'' True = Inr (Some ch)
      \<and> fst (load_region_node_from_cell_array f ch live) = Inl e
    \<longrightarrow> fst (load_cell f c live) = Inl e)"
proof (intro conjI impI)
  assume h: "data_type t = MAT_T_CELL \<and> 1 \<le> nbytes t \<and> data t = CellData cells
      \<and> get_total_element_count t = length cells \<and> length cells \<le> 2147483647
      \<and> i < length cells
      \<and> (\<forall>j<i. \<exists>node. fst (load_cell f (cells ! j) (Suc live)) = Inr node)
      \<and> fst (load_cell f (cells ! i) (Suc live)) = Inl (Exception msg)"
  then have cs: "Mat_VarGetCellsLinear t (int (get_total_element_count t)) = Inr (Some cells)"
    by (simp add: Mat_VarGetCellsLinear_all)
  have r: "fst (load_cells f cells (Suc live)) = Inl (Exception msg)"
    using h by (intro load_cells_abort [of i]) simp_all
  then have "snd (load_cells f cells (Suc live)) = Suc live"
    by (intro live_restored) simp
  with r have "load_cells f cells (Suc live) = (Inl (Exception msg), Suc live)"
    by (cases "load_cells f cells (Suc live)") simp
  then show "load_region_node_from_cell_array f t live = (Inl (Exception msg), live)"
    using h by (simp add: load_region_node_from_cell_array_cells [OF _ _ _ cs])
qed (simp_all add: load_cell_failure)

theorem load_tree_aborts_on_first_error_witness:
  "load_region_node_from_cell_array (\<lambda>d. 0)
     (Matvar [1, 2] MAT_T_CELL False 16 8
        (CellData
           [Matvar [1, 1] MAT_T_STRUCT False 16 8
              (StructData
                 [(''list_of_atomic_superpixels'',
                   Matvar [1, 1] MAT_T_INT32 False 4 4 (Int32Data [1])),
                  (''scale'', Matvar [1, 1] MAT_T_SINGLE False 4 4 (SingleData [5]))]),
            Matvar [1, 1] MAT_T_STRUCT False 8 8
              (StructData
                 [(''list_of_atomic_superpixels'',
                   Matvar [1, 1] MAT_T_INT32 False 4 4 (Int32Data [2]))])]))
     0
   = (Inl (Exception ''Struct is missing expected element: scale''), 0)
 \<and> load_region_node_from_cell_array (\<lambda>d. 0)
     (Matvar [1, 1] MAT_T_CELL False 8 8
        (CellData
           [Matvar [1, 1] MAT_T_STRUCT False 24 8
              (StructData
                 [(''list_of_atomic_superpixels'',
                   Matvar [1, 1] MAT_T_INT32 False 4 4 (Int32Data [1])),
                  (''scale'', Matvar [1, 1] MAT_T_SINGLE False 4 4 (SingleData [5])),
                  (''children'',
                   Matvar [1, 1] MAT_T_CELL False 8 8
                     (CellData
                        [Matvar [1, 1] MAT_T_STRUCT False 16 8
                           (StructData
                              [(''list_of_atomic_superpixels'',
                                Matvar [1, 1] MAT_T_DOUBLE False 8 8 (DoubleData [2])),
                               (''scale'',
                                Matvar [1, 1] MAT_T_SINGLE False 4 4 (SingleData [5]))])]))])]))
     0
   = (Inl (Exception ''list_of_atomic_superpixels has unknown type''), 0)"
proof -
  let ?f = "\<lambda>d :: 64 word. 0 :: 32 word"
  let ?sv = "Matvar [1, 1] MAT_T_SINGLE False 4 4 (SingleData [5])"
  let ?ea = "Matvar [1, 1] MAT_T_STRUCT False 16 8
              (StructData
                 [(''list_of_atomic_superpixels'',
                   Matvar [1, 1] MAT_T_INT32 False 4 4 (Int32Data [1])),
                  (''scale'', ?sv)])"
  let ?eb = "Matvar [1, 1] MAT_T_STRUCT False 8 8
              (StructData
                 [(''list_of_atomic_superpixels'',
                   Matvar [1, 1] MAT_T_INT32 False 4 4 (Int32Data [2]))])"
  let ?t = "Matvar [1, 2] MAT_T_CELL False 16 8 (CellData [?ea, ?eb])"
  let ?m = "Exception ''Struct is missing expected element: scale''"
  let ?g = "Matvar [1, 1] MAT_T_STRUCT False 16 8
              (StructData
                 [(''list_of_atomic_superpixels'',
                   Matvar [1, 1] MAT_T_DOUBLE False 8 8 (DoubleData [2])),
                  (''scale'', ?sv)])"
  let ?ch = "Matvar [1, 1] MAT_T_CELL False 8 8 (CellData [?g])"
  let ?ec = "Matvar [1, 1] MAT_T_STRUCT False 24 8
              (StructData
                 [(''list_of_atomic_superpixels'',
                   Matvar [1, 1] MAT_T_INT32 False 4 4 (Int32Data [1])),
                  (''scale'', ?sv), (''children'', ?ch)])"
  let ?u = "Matvar [1, 1] MAT_T_CELL False 8 8 (CellData [?ec])"
  let ?e = "Exception ''list_of_atomic_superpixels has unknown type''"
  note abort = load_tree_aborts_on_first_error [THEN conjunct1, rule_format]
  note region_fails = load_tree_aborts_on_first_error [THEN conjunct2, THEN conjunct1, rule_format]
  note scale_missing =
    load_tree_aborts_on_first_error [THEN conjunct2, THEN conjunct2, THEN conjunct1, rule_format]
  note child_fails =
    load_tree_aborts_on_first_error
      [THEN conjunct2, THEN conjunct2, THEN conjunct2, THEN conjunct2, rule_format]
  have n: "get_total_element_count ?t = 2" "get_total_element_count ?u = 1"
    "get_total_element_count ?ch = 1"
    by (simp_all add: get_total_element_count_def)
  have r: "load_region ?ea = Inr (CompoundRegion [1])" "load_region ?eb = Inr (CompoundRegion [2])"
    "load_region ?ec = Inr (CompoundRegion [1])" "load_region ?g = Inl ?e"
    by (simp_all add: load_region_def get_struct_field_def Mat_VarGetStructField_def
        copy_elements_def)
  have s: "get_struct_field ?ea ''scale'' False = Inr (Some ?sv)"
    "get_struct_field ?ea ''children'' True = Inr None"
    "get_struct_field ?eb ''scale'' False = Inl ?m"
    "get_struct_field ?ec ''scale'' False = Inr (Some ?sv)"
    "get_struct_field ?ec ''children'' True = Inr (Some ?ch)"
    "load_scale ?f ?sv = Inr 5"
    by (simp_all add: get_struct_field_def Mat_VarGetStructField_def load_scale_def
        first_element_def)
  have c0: "fst (load_cell ?f ?ea (Suc 0)) = Inr (HierarchicalRegion (CompoundRegion [1]) 5 [])"
    unfolding load_cell_leaf [OF r(1) s(1) s(6) s(2)] by simp
  have c1: "fst (load_cell ?f ?eb (Suc 0)) = Inl ?m"
    by (rule scale_missing [OF conjI [OF r(2) s(3)]])
  have before: "\<forall>j<Suc 0. \<exists>node. fst (load_cell ?f ([?ea, ?eb] ! j) (Suc 0)) = Inr node"
    using c0 by simp
  have first: "load_region_node_from_cell_array ?f ?t 0 = (Inl ?m, 0)"
    using abort [of ?t "[?ea, ?eb]" "Suc 0" ?f 0 "''Struct is missing expected element: scale''"]
      n before c1
    by simp
  have grandchild: "fst (load_cell ?f ?g (Suc (Suc 0))) = Inl ?e"
    by (rule region_fails) (rule r(4))
  have child: "load_region_node_from_cell_array ?f ?ch (Suc 0) = (Inl ?e, Suc 0)"
    using abort [of ?ch "[?g]" 0 ?f "Suc 0" "''list_of_atomic_superpixels has unknown type''"]
      n grandchild
    by simp
  have element: "fst (load_cell ?f ?ec (Suc 0)) = Inl ?e"
  proof -
    have "fst (load_region_node_from_cell_array ?f ?ch (Suc 0)) = Inl ?e"
      unfolding child by simp
    with r(3) s(4) s(6) s(5) show ?thesis
      by (intro child_fails conjI)
  qed
  have second: "load_region_node_from_cell_array ?f ?u 0 = (Inl ?e, 0)"
    using abort [of ?u "[?ec]" 0 ?f 0 "''list_of_atomic_superpixels has unknown type''"]
      n element
    by simp
  from first second show ?thesis by (rule conjI)
qed

subsection \<open>The tree loader on well-formed input\<close>

lemma valid_membership_loads:
  assumes "valid_membership c"
  shows "\<exists>b. load_region c = Inr b"
proof -
  from assms obtain l where l: "Mat_VarGetStructField c ''list_of_atomic_superpixels'' = Some l"
    and st: "data_type c = MAT_T_STRUCT" and nb: "0 < nbytes l" and ds: "0 < data_size l"
    and d: "case data l of
              Int32Data xs \<Rightarrow> data_type l = MAT_T_INT32 \<and> length xs = nbytes l div data_size l
            | Int64Data xs \<Rightarrow> data_type l = MAT_T_INT64 \<and> length xs = nbytes l div data_size l
            | _ \<Rightarrow> False"
    by (auto simp: valid_membership_def split: option.splits)
  have g: "get_struct_field c ''list_of_atomic_superpixels'' False = Inr (Some l)"
    using l nb by (simp add: get_struct_field_def)
  from d show ?thesis
    using st ds by (cases "data l") (simp_all add: load_region_def g copy_elements_def)
qed

lemma valid_scale_loads:
  assumes "valid_scale c"
  shows "\<exists>sv s. get_struct_field c ''scale'' False = Inr (Some sv) \<and> load_scale f sv = Inr s"
proof -
  from assms obtain sv where sv: "Mat_VarGetStructField c ''scale'' = Some sv"
    and nb: "0 < nbytes sv"
    and d: "case data sv of
              SingleData xs \<Rightarrow> data_type sv = MAT_T_SINGLE \<and> xs \<noteq> []
            | DoubleData xs \<Rightarrow> data_type sv = MAT_T_DOUBLE \<and> xs \<noteq> []
            | _ \<Rightarrow> False"
    by (auto simp: valid_scale_def split: option.splits)
  have g: "get_struct_field c ''scale'' False = Inr (Some sv)"
    using sv nb by (simp add: get_struct_field_def)
  from d have "\<exists>s. load_scale f sv = Inr s"
    by (cases "data sv")
      (auto simp: load_scale_def first_element_def split: list.splits)
  with g show ?thesis by blast
qed

lemma load_cells_all:
  assumes "\<And>c live. c \<in> set cs \<Longrightarrow>
             \<exists>node. load_cell f c live = (Inr node, live) \<and> loaded_from f c node"
  shows "\<exists>out. load_cells f cs live = (Inr out, live) \<and> list_all2 (loaded_from f) cs out"
  using assms
proof (induction cs)
  case Nil
  then show ?case by simp
next
  case (Cons c cs)
  from Cons.prems [of c live] obtain node where
    n: "load_cell f c live = (Inr node, live)" "loaded_from f c node"
    by auto
  from Cons.IH Cons.prems obtain out where
    o: "load_cells f cs live = (Inr out, live)" "list_all2 (loaded_from f) cs out"
    by auto
  from n o show ?case by simp
qed

lemma load_well_formed:
  "well_formed_siblings t \<Longrightarrow>
     \<exists>out cells. data t = CellData cells
        \<and> load_region_node_from_cell_array f t live = (Inr out, live)
        \<and> list_all2 (loaded_from f) cells out"
  "well_formed_element c \<Longrightarrow>
     \<exists>node. load_cell f c live = (Inr node, live) \<and> loaded_from f c node"
proof (induction t and c arbitrary: live and live
    rule: well_formed_siblings_well_formed_element.induct)
  case (1 t)
  from "1.prems" obtain cells where c: "data t = CellData cells"
    and ty: "data_type t = MAT_T_CELL" "1 \<le> nbytes t"
    and n: "get_total_element_count t = length cells" "length cells \<le> 2147483647"
    and wf: "\<forall>c \<in> set cells. well_formed_element c"
    by (auto split: mat_data.splits)
  have cs: "Mat_VarGetCellsLinear t (int (get_total_element_count t)) = Inr (Some cells)"
    using c n by (simp add: Mat_VarGetCellsLinear_all)
  have "\<exists>out. load_cells f cells (Suc live) = (Inr out, Suc live)
          \<and> list_all2 (loaded_from f) cells out"
    using "1.IH" [OF c] wf by (intro load_cells_all) blast
  then obtain out where "load_cells f cells (Suc live) = (Inr out, Suc live)"
    "list_all2 (loaded_from f) cells out"
    by blast
  then show ?case
    using c ty n by (simp add: load_region_node_from_cell_array_cells [OF _ _ _ cs])
next
  case (2 c)
  from "2.prems" have vm: "valid_membership c" and vs: "valid_scale c"
    and ch: "case Mat_VarGetStructField c ''children'' of
               None \<Rightarrow> True
             | Some children \<Rightarrow>
                 if nbytes children = 0 then get_total_element_count children = 0
                 else well_formed_siblings children"
    by simp_all
  from valid_membership_loads [OF vm] obtain b where b: "load_region c = Inr b" ..
  from valid_scale_loads [OF vs, of f] obtain sv s where
    sv: "get_struct_field c ''scale'' False = Inr (Some sv)" "load_scale f sv = Inr s"
    by blast
  show ?case
  proof (cases "Mat_VarGetStructField c ''children''")
    case None
    then have "get_struct_field c ''children'' True = Inr None"
      by (simp add: get_struct_field_optional)
    from load_cell_leaf [OF b sv this] None b sv show ?thesis
      by (simp add: loaded_from_def child_count_def)
  next
    case (Some children)
    show ?thesis
    proof (cases "nbytes children = 0")
      case True
      then have "get_struct_field c ''children'' True = Inr None"
        using Some by (simp add: get_struct_field_optional)
      from load_cell_leaf [OF b sv this] Some True ch b sv show ?thesis
        by (simp add: loaded_from_def child_count_def)
    next
      case False
      then have g: "get_struct_field c ''children'' True = Inr (Some children)"
        using Some by (simp add: get_struct_field_optional)
      from ch Some False have wf: "well_formed_siblings children" by simp
      from "2.IH" [OF Some False wf, of live] obtain out cells where
        o: "data children = CellData cells"
          "load_region_node_from_cell_array f children live = (Inr out, live)"
          "list_all2 (loaded_from f) cells out"
        by blast
      from wf o(1) have "get_total_element_count children = length cells"
        by (simp split: mat_data.splits)
      with load_cell_inner [OF b sv g o(2)] o(3) Some b sv show ?thesis
        by (auto simp: loaded_from_def child_count_def dest: list_all2_lengthD)
    qed
  qed
qed

text \<open>
  C2.  On a well-formed sibling sequence of \<open>M \<ge> 1\<close> elements the loader returns \<open>M\<close>
  nodes.  The \<open>i\<close>-th node comes from the \<open>i\<close>-th element: it has the membership list and
  the scale loaded from that element, and the length of its children sequence is the
  length of the child sequence of that element, 0 when the element has no field
  \<^verbatim>\<open>children\<close>.
\<close>

theorem load_region_tree_shape:
  assumes "well_formed_siblings t" and "data t = CellData cells"
  shows "\<exists>out. load_region_node_from_cell_array f t live = (Inr out, live)
      \<and> 1 \<le> length cells \<and> length out = length cells
      \<and> (\<forall>i<length cells.
            load_region (cells ! i) = Inr (region (out ! i))
          \<and> (\<exists>sv. get_struct_field (cells ! i) ''scale'' False = Inr (Some sv)
                 \<and> load_scale f sv = Inr (scale (out ! i)))
          \<and> length (children_node (out ! i)) = child_count (cells ! i))"
proof -
  from load_well_formed(1) [OF assms(1), of f live] assms(2) obtain out where
    o: "load_region_node_from_cell_array f t live = (Inr out, live)"
       "list_all2 (loaded_from f) cells out"
    by auto
  from assms have "1 \<le> length cells"
    by (simp split: mat_data.splits)
  with o show ?thesis
    by (auto simp: list_all2_conv_all_nth loaded_from_def)
qed

theorem load_region_tree_shape_witness:
  "well_formed_siblings
     (Matvar [1, 2] MAT_T_CELL False 16 8
        (CellData
           [Matvar [1, 1] MAT_T_STRUCT False 24 8
              (StructData
                 [(''list_of_atomic_superpixels'',
                   Matvar [1, 2] MAT_T_INT32 False 8 4 (Int32Data [1, 2])),
                  (''scale'', Matvar [1, 1] MAT_T_SINGLE False 4 4 (SingleData [5])),
                  (''children'',
                   Matvar [1, 1] MAT_T_CELL False 8 8
                     (CellData
                        [Matvar [1, 1] MAT_T_STRUCT False 16 8
                           (StructData
                              [(''list_of_atomic_superpixels'',
                                Matvar [1, 1] MAT_T_INT32 False 4 4 (Int32Data [1])),
                               (''scale'',
                                Matvar [1, 1] MAT_T_SINGLE False 4 4 (SingleData [5]))])]))]),
            Matvar [1, 1] MAT_T_STRUCT False 16 8
              (StructData
                 [(''list_of_atomic_superpixels'',
                   Matvar [1, 1] MAT_T_INT64 False 8 8 (Int64Data [7])),
                  (''scale'', Matvar [1, 1] MAT_T_DOUBLE False 8 8 (DoubleData [9]))])]))
 \<and> (\<exists>out.
      load_region_node_from_cell_array (\<lambda>d. 0)
        (Matvar [1, 2] MAT_T_CELL False 16 8
           (CellData
              [Matvar [1, 1] MAT_T_STRUCT False 24 8
                 (StructData
                    [(''list_of_atomic_superpixels'',
                      Matvar [1, 2] MAT_T_INT32 False 8 4 (Int32Data [1, 2])),
                     (''scale'', Matvar [1, 1] MAT_T_SINGLE False 4 4 (SingleData [5])),
                     (''children'',
                      Matvar [1, 1] MAT_T_CELL False 8 8
                        (CellData
                           [Matvar [1, 1] MAT_T_STRUCT False 16 8
                              (StructData
                                 [(''list_of_atomic_superpixels'',
                                   Matvar [1, 1] MAT_T_INT32 False 4 4 (Int32Data [1])),
                                  (''scale'',
                                   Matvar [1, 1] MAT_T_SINGLE False 4 4
                                     (SingleData [5]))])]))]),
               Matvar [1, 1] MAT_T_STRUCT False 16 8
                 (StructData
                    [(''list_of_atomic_superpixels'',
                      Matvar [1, 1] MAT_T_INT64 False 8 8 (Int64Data [7])),
                     (''scale'', Matvar [1, 1] MAT_T_DOUBLE False 8 8 (DoubleData [9]))])]))
        0 = (Inr out, 0)
      \<and> length out = 2
      \<and> region (out ! 0) = CompoundRegion [1, 2]
      \<and> region (out ! 1) = CompoundRegion [7]
      \<and> length (children_node (out ! 0)) = 1
      \<and> length (children_node (out ! 1)) = 0)"
proof -
  let ?leaf = "Matvar [1, 1] MAT_T_STRUCT False 16 8
                 (StructData
                    [(''list_of_atomic_superpixels'',
                      Matvar [1, 1] MAT_T_INT32 False 4 4 (Int32Data [1])),
                     (''scale'', Matvar [1, 1] MAT_T_SINGLE False 4 4 (SingleData [5]))])"
  let ?ch = "Matvar [1, 1] MAT_T_CELL False 8 8 (CellData [?leaf])"
  let ?a = "Matvar [1, 1] MAT_T_STRUCT False 24 8
              (StructData
                 [(''list_of_atomic_superpixels'',
                   Matvar [1, 2] MAT_T_INT32 False 8 4 (Int32Data [1, 2])),
                  (''scale'', Matvar [1, 1] MAT_T_SINGLE False 4 4 (SingleData [5])),
                  (''children'', ?ch)])"
  let ?b = "Matvar [1, 1] MAT_T_STRUCT False 16 8
              (StructData
                 [(''list_of_atomic_superpixels'',
                   Matvar [1, 1] MAT_T_INT64 False 8 8 (Int64Data [7])),
                  (''scale'', Matvar [1, 1] MAT_T_DOUBLE False 8 8 (DoubleData [9]))])"
  let ?t = "Matvar [1, 2] MAT_T_CELL False 16 8 (CellData [?a, ?b])"
  have leaf: "well_formed_element ?leaf"
    by (simp add: valid_membership_def valid_scale_def Mat_VarGetStructField_def)
  have ch: "well_formed_siblings ?ch"
    unfolding well_formed_siblings.simps [of ?ch]
    using leaf by (simp add: get_total_element_count_def)
  have a: "well_formed_element ?a"
    unfolding well_formed_element.simps [of ?a]
    using ch by (simp add: valid_membership_def valid_scale_def Mat_VarGetStructField_def)
  have b: "well_formed_element ?b"
    by (simp add: valid_membership_def valid_scale_def Mat_VarGetStructField_def)
  have wf: "well_formed_siblings ?t"
    unfolding well_formed_siblings.simps [of ?t]
    using a b by (simp add: get_total_element_count_def)
  have r: "load_region ?a = Inr (CompoundRegion [1, 2])" "load_region ?b = Inr (CompoundRegion [7])"
    by (simp_all add: load_region_def get_struct_field_def Mat_VarGetStructField_def
        copy_elements_def)
  have n: "child_count ?a = 1" "child_count ?b = 0"
    by (simp_all add: child_count_def Mat_VarGetStructField_def get_total_element_count_def)
  from load_region_tree_shape [OF wf, of "[?a, ?b]" "\<lambda>d. 0" 0]
  obtain out where o: "load_region_node_from_cell_array (\<lambda>d. 0) ?t 0 = (Inr out, 0)"
    "length out = length [?a, ?b]"
    and each: "\<forall>i<length [?a, ?b].
            load_region ([?a, ?b] ! i) = Inr (region (out ! i))
          \<and> (\<exists>sv. get_struct_field ([?a, ?b] ! i) ''scale'' False = Inr (Some sv)
                 \<and> load_scale (\<lambda>d. 0) sv = Inr (scale (out ! i)))
          \<and> length (children_node (out ! i)) = child_count ([?a, ?b] ! i)"
    by auto
  from each [rule_format, of 0] each [rule_format, of 1] r n
  have "region (out ! 0) = CompoundRegion [1, 2]" "region (out ! 1) = CompoundRegion [7]"
    "length (children_node (out ! 0)) = 1" "length (children_node (out ! 1)) = 0"
    by simp_all
  with o wf show ?thesis by simp
qed

subsection \<open>A children field that is absent or empty\<close>

text \<open>
  C6, as stated, at two sibling sequences of one record each, the same but for the field
  \<^verbatim>\<open>children\<close>: the first record has none, the second has one that is present and empty.
  The loader returns the same result for both.
\<close>

theorem empty_children_counterexample:
  "Mat_VarGetStructField
     (Matvar [1, 1] MAT_T_STRUCT False 16 8
        (StructData
           [(''list_of_atomic_superpixels'',
             Matvar [1, 1] MAT_T_INT32 False 4 4 (Int32Data [1])),
            (''scale'', Matvar [1, 1] MAT_T_SINGLE False 4 4 (SingleData [5]))]))
     ''children'' = None
 \<and> Mat_VarGetStructField
     (Matvar [1, 1] MAT_T_STRUCT False 24 8
        (StructData
           [(''list_of_atomic_superpixels'',
             Matvar [1, 1] MAT_T_INT32 False 4 4 (Int32Data [1])),
            (''scale'', Matvar [1, 1] MAT_T_SINGLE False 4 4 (SingleData [5])),
            (''children'', Matvar [0, 0] MAT_T_CELL False 0 8 (CellData []))]))
     ''children'' = Some (Matvar [0, 0] MAT_T_CELL False 0 8 (CellData []))
 \<and> load_region_node_from_cell_array (\<lambda>d. 0)
     (Matvar [1, 1] MAT_T_CELL False 8 8
        (CellData
           [Matvar [1, 1] MAT_T_STRUCT False 16 8
              (StructData
                 [(''list_of_atomic_superpixels'',
                   Matvar [1, 1] MAT_T_INT32 False 4 4 (Int32Data [1])),
                  (''scale'', Matvar [1, 1] MAT_T_SINGLE False 4 4 (SingleData [5]))])]))
     0
   = (Inr [HierarchicalRegion (CompoundRegion [1]) 5 []], 0)
 \<and> load_region_node_from_cell_array (\<lambda>d. 0)
     (Matvar [1, 1] MAT_T_CELL False 8 8
        (CellData
           [Matvar [1, 1] MAT_T_STRUCT False 24 8
              (StructData
                 [(''list_of_atomic_superpixels'',
                   Matvar [1, 1] MAT_T_INT32 False 4 4 (Int32Data [1])),
                  (''scale'', Matvar [1, 1] MAT_T_SINGLE False 4 4 (SingleData [5])),
                  (''children'', Matvar [0, 0] MAT_T_CELL False 0 8 (CellData []))])]))
     0
   = (Inr [HierarchicalRegion (CompoundRegion [1]) 5 []], 0)"
proof -
  let ?sv = "Matvar [1, 1] MAT_T_SINGLE False 4 4 (SingleData [5])"
  let ?a = "Matvar [1, 1] MAT_T_STRUCT False 16 8
              (StructData
                 [(''list_of_atomic_superpixels'',
                   Matvar [1, 1] MAT_T_INT32 False 4 4 (Int32Data [1])),
                  (''scale'', ?sv)])"
  let ?e = "Matvar [1, 1] MAT_T_STRUCT False 24 8
              (StructData
                 [(''list_of_atomic_superpixels'',
                   Matvar [1, 1] MAT_T_INT32 False 4 4 (Int32Data [1])),
                  (''scale'', ?sv),
                  (''children'', Matvar [0, 0] MAT_T_CELL False 0 8 (CellData []))])"
  have f: "Mat_VarGetStructField ?a ''children'' = None"
    "Mat_VarGetStructField ?e ''children''
       = Some (Matvar [0, 0] MAT_T_CELL False 0 8 (CellData []))"
    by (simp_all add: Mat_VarGetStructField_def)
  have r: "load_region ?a = Inr (CompoundRegion [1])" "load_region ?e = Inr (CompoundRegion [1])"
    by (simp_all add: load_region_def get_struct_field_def Mat_VarGetStructField_def
        copy_elements_def)
  have s: "get_struct_field ?a ''scale'' False = Inr (Some ?sv)"
    "get_struct_field ?e ''scale'' False = Inr (Some ?sv)"
    "load_scale (\<lambda>d. 0) ?sv = Inr 5"
    "get_struct_field ?a ''children'' True = Inr None"
    "get_struct_field ?e ''children'' True = Inr None"
    by (simp_all add: get_struct_field_def Mat_VarGetStructField_def load_scale_def
        first_element_def)
  have c: "load_cell (\<lambda>d. 0) ?a (Suc 0)
             = (Inr (HierarchicalRegion (CompoundRegion [1]) 5 []), Suc 0)"
    "load_cell (\<lambda>d. 0) ?e (Suc 0)
             = (Inr (HierarchicalRegion (CompoundRegion [1]) 5 []), Suc 0)"
    by (rule load_cell_leaf [OF r(1) s(1) s(3) s(4)])
       (rule load_cell_leaf [OF r(2) s(2) s(3) s(5)])
  have t: "load_region_node_from_cell_array (\<lambda>d. 0)
             (Matvar [1, 1] MAT_T_CELL False 8 8 (CellData [x])) 0
           = (case load_cells (\<lambda>d. 0) [x] (Suc 0) of
                (Inl (Exception msg), live') \<Rightarrow> (Inl (Exception msg), live' - 1)
              | (Inl e, live') \<Rightarrow> (Inl e, live')
              | (Inr output, live') \<Rightarrow> (Inr output, live' - 1))" for x
    by (rule load_region_node_from_cell_array_cells)
      (simp_all add: get_total_element_count_def Mat_VarGetCellsLinear_def)
  have l: "load_cells (\<lambda>d. 0) [?a] (Suc 0)
             = (Inr [HierarchicalRegion (CompoundRegion [1]) 5 []], Suc 0)"
    "load_cells (\<lambda>d. 0) [?e] (Suc 0)
             = (Inr [HierarchicalRegion (CompoundRegion [1]) 5 []], Suc 0)"
    unfolding load_cells.simps c by simp_all
  show ?thesis
    unfolding t l by (intro conjI f) simp_all
qed

lemma map_of_filter_other:
  "map_of (filter (\<lambda>p. fst p \<noteq> name) fs) m = (if m = name then None else map_of fs m)"
  by (induction fs) auto

lemma Mat_VarGetStructField_without_field:
  "Mat_VarGetStructField (without_field name c) m =
     (if m = name then None else Mat_VarGetStructField c m)"
  by (cases c; cases "data c")
    (auto simp: without_field_def Mat_VarGetStructField_def map_of_filter_other)

lemma data_type_without_field: "data_type (without_field name c) = data_type c"
  by (cases c; cases "data c") (auto simp: without_field_def)

lemma get_struct_field_without_field:
  "m \<noteq> name \<Longrightarrow> get_struct_field (without_field name c) m opt = get_struct_field c m opt"
  by (simp add: get_struct_field_def Mat_VarGetStructField_without_field)

lemma load_region_without_children:
  "load_region (without_field ''children'' c) = load_region c"
  by (simp add: load_region_def data_type_without_field get_struct_field_without_field)

lemma load_cell_no_children:
  assumes "get_struct_field c ''children'' True = Inr None"
  shows "load_cell f c live =
     (case load_region c of
        Inl e \<Rightarrow> (Inl e, live)
      | Inr base \<Rightarrow>
          (case get_struct_field c ''scale'' False of
             Inl e \<Rightarrow> (Inl e, live)
           | Inr None \<Rightarrow> (Inl NullDereference, live)
           | Inr (Some scale_var) \<Rightarrow>
               (case load_scale f scale_var of
                  Inl e \<Rightarrow> (Inl e, live)
                | Inr s \<Rightarrow> (Inr (HierarchicalRegion base s []), live))))"
  by (subst load_cell.simps) (simp add: assms cong: sum.case_cong option.case_cong)

text \<open>
  C6, amended.  A node loaded from a record whose field \<^verbatim>\<open>children\<close> is absent is a leaf
  (its children sequence is empty).  A field \<^verbatim>\<open>children\<close> that is present and empty (of
  no bytes) is not distinguished from an absent one: \<^verbatim>\<open>get_struct_field\<close> returns the null
  pointer for both, and the outcome of loading the record is the outcome of loading the
  record without the field.
\<close>

theorem absent_or_empty_children_is_leaf:
  assumes "Mat_VarGetStructField c ''children'' = None
         \<or> (\<exists>children. Mat_VarGetStructField c ''children'' = Some children
                \<and> nbytes children = 0)"
  shows "get_struct_field c ''children'' True = Inr None
       \<and> (\<forall>node live'. load_cell f c live = (Inr node, live') \<longrightarrow> children_node node = [])
       \<and> load_cell f c live = load_cell f (without_field ''children'' c) live"
proof -
  have a: "get_struct_field c ''children'' True = Inr None"
    using assms by (auto simp: get_struct_field_optional)
  have b: "get_struct_field (without_field ''children'' c) ''children'' True = Inr None"
    by (simp add: get_struct_field_optional Mat_VarGetStructField_without_field)
  have "children_node node = []" if "load_cell f c live = (Inr node, live')" for node live'
    using that unfolding load_cell_no_children [OF a]
    by (auto split: sum.splits option.splits)
  moreover have "load_cell f c live = load_cell f (without_field ''children'' c) live"
  proof -
    have s: "get_struct_field (without_field ''children'' c) ''scale'' False
               = get_struct_field c ''scale'' False"
      by (simp add: get_struct_field_without_field)
    show ?thesis
      unfolding load_cell_no_children [OF a] load_cell_no_children [OF b]
        load_region_without_children s ..
  qed
  ultimately show ?thesis using a by blast
qed

theorem absent_or_empty_children_is_leaf_witness:
  "get_struct_field
     (Matvar [1, 1] MAT_T_STRUCT False 24 8
        (StructData
           [(''list_of_atomic_superpixels'',
             Matvar [1, 1] MAT_T_INT32 False 4 4 (Int32Data [1])),
            (''scale'', Matvar [1, 1] MAT_T_SINGLE False 4 4 (SingleData [5])),
            (''children'', Matvar [0, 0] MAT_T_CELL False 0 8 (CellData []))]))
     ''children'' True = Inr None
 \<and> load_cell (\<lambda>d. 0)
     (Matvar [1, 1] MAT_T_STRUCT False 24 8
        (StructData
           [(''list_of_atomic_superpixels'',
             Matvar [1, 1] MAT_T_INT32 False 4 4 (Int32Data [1])),
            (''scale'', Matvar [1, 1] MAT_T_SINGLE False 4 4 (SingleData [5])),
            (''children'', Matvar [0, 0] MAT_T_CELL False 0 8 (CellData []))]))
     0 = (Inr (HierarchicalRegion (CompoundRegion [1]) 5 []), 0)
 \<and> load_cell (\<lambda>d. 0)
     (without_field ''children''
        (Matvar [1, 1] MAT_T_STRUCT False 24 8
           (StructData
              [(''list_of_atomic_superpixels'',
                Matvar [1, 1] MAT_T_INT32 False 4 4 (Int32Data [1])),
               (''scale'', Matvar [1, 1] MAT_T_SINGLE False 4 4 (SingleData [5])),
               (''children'', Matvar [0, 0] MAT_T_CELL False 0 8 (CellData []))])))
     0 = (Inr (HierarchicalRegion (CompoundRegion [1]) 5 []), 0)
 \<and> without_field ''children''
        (Matvar [1, 1] MAT_T_STRUCT False 24 8
           (StructData
              [(''list_of_atomic_superpixels'',
                Matvar [1, 1] MAT_T_INT32 False 4 4 (Int32Data [1])),
               (''scale'', Matvar [1, 1] MAT_T_SINGLE False 4 4 (SingleData [5])),
               (''children'', Matvar [0, 0] MAT_T_CELL False 0 8 (CellData []))]))
     = Matvar [1, 1] MAT_T_STRUCT False 24 8
           (StructData
              [(''list_of_atomic_superpixels'',
                Matvar [1, 1] MAT_T_INT32 False 4 4 (Int32Data [1])),
               (''scale'', Matvar [1, 1] MAT_T_SINGLE False 4 4 (SingleData [5]))])"
proof -
  let ?sv = "Matvar [1, 1] MAT_T_SINGLE False 4 4 (SingleData [5])"
  let ?e = "Matvar [1, 1] MAT_T_STRUCT False 24 8
              (StructData
                 [(''list_of_atomic_superpixels'',
                   Matvar [1, 1] MAT_T_INT32 False 4 4 (Int32Data [1])),
                  (''scale'', ?sv),
                  (''children'', Matvar [0, 0] MAT_T_CELL False 0 8 (CellData []))])"
  have f: "Mat_VarGetStructField ?e ''children''
       = Some (Matvar [0, 0] MAT_T_CELL False 0 8 (CellData []))"
    by (simp add: Mat_VarGetStructField_def)
  have r: "load_region ?e = Inr (CompoundRegion [1])"
    by (simp add: load_region_def get_struct_field_def Mat_VarGetStructField_def
        copy_elements_def)
  have s: "get_struct_field ?e ''scale'' False = Inr (Some ?sv)"
    "load_scale (\<lambda>d. 0) ?sv = Inr 5"
    "get_struct_field ?e ''children'' True = Inr None"
    by (simp_all add: get_struct_field_def Mat_VarGetStructField_def load_scale_def
        first_element_def)
  have c: "load_cell (\<lambda>d. 0) ?e 0 = (Inr (HierarchicalRegion (CompoundRegion [1]) 5 []), 0)"
    by (rule load_cell_leaf [OF r s])
  have w: "without_field ''children'' ?e
     = Matvar [1, 1] MAT_T_STRUCT False 24 8
           (StructData
              [(''list_of_atomic_superpixels'',
                Matvar [1, 1] MAT_T_INT32 False 4 4 (Int32Data [1])),
               (''scale'', ?sv)])"
    by (simp add: without_field_def)
  have h: "Mat_VarGetStructField ?e ''children'' = None
         \<or> (\<exists>children. Mat_VarGetStructField ?e ''children'' = Some children
                \<and> nbytes children = 0)"
    unfolding f by simp
  have "load_cell (\<lambda>d. 0) ?e 0 = load_cell (\<lambda>d. 0) (without_field ''children'' ?e) 0"
    by (rule absent_or_empty_children_is_leaf [OF h, THEN conjunct2, THEN conjunct2])
  then have "load_cell (\<lambda>d. 0) (without_field ''children'' ?e) 0
               = (Inr (HierarchicalRegion (CompoundRegion [1]) 5 []), 0)"
    unfolding c by (rule sym)
  then show ?thesis
    by (intro conjI s(3) c w)
qed

end
